theory Spec2Isabelle
  imports Main
begin

section \<open>JavaScript values used by the chat client\<close>

text \<open>
  The client (static/script.js) keeps one variable, \<open>currentConversationId\<close>, and
  otherwise works on the page's elements and on the replies of the server. The values
  that flow through the conversation id are \<open>undefined\<close>, \<open>null\<close>, numbers and
  strings. Numeric ids are integers, so numbers are modelled by \<open>int\<close>.
\<close>

datatype jsval = JUndefined | JNull | JNum int | JStr string

text \<open>Truthiness, as tested by \<open>if (x)\<close> and \<open>!x\<close>.\<close>

fun truthy :: "jsval \<Rightarrow> bool" where
  "truthy JUndefined = False"
| "truthy JNull = False"
| "truthy (JNum n) = (n \<noteq> 0)"
| "truthy (JStr s) = (s \<noteq> [])"

text \<open>Decimal rendering of a number inside a template literal.\<close>

fun dec :: "nat \<Rightarrow> string" where
  "dec n = (if n < 10 then [''0123456789'' ! n]
            else dec (n div 10) @ [''0123456789'' ! (n mod 10)])"

declare dec.simps [simp del]

fun toString :: "jsval \<Rightarrow> string" where
  "toString JUndefined = ''undefined''"
| "toString JNull = ''null''"
| "toString (JNum n) = (if n < 0 then CHR ''-'' # dec (nat (- n)) else dec (nat n))"
| "toString (JStr s) = s"

text \<open>
  Loose equality \<open>a == b\<close>. Comparing a string with a number converts the string with
  the runtime's string-to-number conversion, which is not part of the repository: it is the
  parameter \<open>tn\<close> (\<open>None\<close> when the string does not denote an integer).
\<close>

fun looseEq :: "(string \<Rightarrow> int option) \<Rightarrow> jsval \<Rightarrow> jsval \<Rightarrow> bool" where
  "looseEq tn JUndefined b = (b = JUndefined \<or> b = JNull)"
| "looseEq tn JNull b = (b = JUndefined \<or> b = JNull)"
| "looseEq tn (JNum n) (JNum m) = (n = m)"
| "looseEq tn (JNum n) (JStr t) = (tn t = Some n)"
| "looseEq tn (JNum n) b = False"
| "looseEq tn (JStr s) (JStr t) = (s = t)"
| "looseEq tn (JStr s) (JNum m) = (tn s = Some m)"
| "looseEq tn (JStr s) b = False"

text \<open>
  A conversion for the concrete runs below: a non-empty string of decimal digits denotes
  its number, the empty string denotes 0, every other string denotes no integer.
\<close>

definition isDigit :: "char \<Rightarrow> bool" where
  "isDigit c = (c \<in> set ''0123456789'')"

fun digitsValue :: "int \<Rightarrow> string \<Rightarrow> int option" where
  "digitsValue acc [] = Some acc"
| "digitsValue acc (c # cs) =
     (if isDigit c
      then digitsValue (10 * acc + (int (of_char c) - 48)) cs else None)"

definition decimalToNumber :: "string \<Rightarrow> int option" where
  "decimalToNumber s = digitsValue 0 s"

section \<open>The page and the server's replies\<close>

text \<open>
  The children of \<open>#chat-box\<close>: the suggestions container, or a message bubble
  \<open>Message c m\<close>, a \<open>div\<close> with the classes \<open>message\<close> and \<open>c\<close> whose markup is
  \<open>marked.parse(m)\<close>.
\<close>

datatype node = Suggestions | Message string string

text \<open>An anchor of the sidebar; \<open>active\<close> says whether its class list holds \<open>active\<close>.\<close>

record link =
  href :: string
  textContent :: string
  dataId :: string
  active :: bool

text \<open>Exceptions, each with its \<open>message\<close>.\<close>

datatype js_error = Error string | TypeError string | SyntaxError string

fun errorMessage :: "js_error \<Rightarrow> string" where
  "errorMessage (Error m) = m"
| "errorMessage (TypeError m) = m"
| "errorMessage (SyntaxError m) = m"

text \<open>
  A call of \<open>fetch\<close>: method, URL and body. The body of the send call,
  \<open>JSON.stringify({message: message})\<close>, is represented by the message text.
\<close>

datatype request = Request string string "string option"

text \<open>
  What \<open>await fetch(...)\<close> followed by \<open>await response.json()\<close> gives: \<open>Rejected m\<close>
  when either promise rejects with an error of message \<open>m\<close> (transport failure, malformed
  JSON), or \<open>Body e d\<close>, the parsed object, with \<open>e\<close> its \<open>error\<close> field
  (\<open>JUndefined\<close> when absent) and \<open>d\<close> the fields the caller reads when \<open>e\<close> is falsy.
\<close>

datatype 'a fetched = Rejected string | Body jsval 'a

text \<open>
  The reply of \<open>GET /conversations\<close>, whose \<open>error\<close> field is never read: an array of
  entries, or a JSON value that has no \<open>forEach\<close> (such as an \<open>{error: ...}\<close> object).
\<close>

record conv =
  conv_id :: jsval
  conv_title :: string

datatype history_reply = HistoryRejected string | HistoryArray "conv list" | HistoryNotArray

record msg =
  msg_content :: string
  msg_sender :: string

record conversation =
  data_title :: string
  data_messages :: "msg list"

text \<open>
  The state the functions read and write. An element looked up with
  \<open>document.getElementById\<close> and guarded by \<open>if (element)\<close> in the source is an option:
  \<open>None\<close> when the page has no such element, otherwise its \<open>style.display\<close> (for the
  sidebar, its list of links). \<open>chatBox\<close>, \<open>chatTitle\<close>, \<open>shareLinkInput\<close> and
  \<open>shareModal\<close> are dereferenced without a guard by the functions below, so the model is
  of pages that have them. The browser's location is \<open>pathname\<close>; \<open>historyEntries\<close> are
  the session-history entries behind it. \<open>requests\<close> records the calls of \<open>fetch\<close> in the
  order they are issued, \<open>alerts\<close> the alert dialogs and \<open>console\<close> the calls of
  \<open>console.error\<close>. Scroll positions and element heights are not modelled.
\<close>

record state =
  currentConversationId :: jsval
  chatBox :: "node list"
  suggestionsContainer :: "string option"
  typingIndicator :: "string option"
  chatTitle :: string
  shareChatBtn :: "string option"
  exportMenuBtn :: "string option"
  conversationHistory :: "link list option"
  shareLinkInput :: string
  shareModal :: string
  messageInput :: string
  pathname :: string
  historyEntries :: "string list"
  requests :: "request list"
  alerts :: "string list"
  console :: "(string \<times> js_error) list"

text \<open>A statement sequence either completes or throws, in a state.\<close>

datatype outcome = Normal state | Throw js_error state

definition setDisplay :: "string \<Rightarrow> string option \<Rightarrow> string option" where
  "setDisplay d el = map_option (\<lambda>_. d) el"

definition fetch :: "request \<Rightarrow> state \<Rightarrow> state" where
  "fetch r s = s\<lparr>requests := requests s @ [r]\<rparr>"

definition pushState :: "string \<Rightarrow> state \<Rightarrow> state" where
  "pushState url s = s\<lparr>historyEntries := historyEntries s @ [pathname s], pathname := url\<rparr>"

definition consoleError :: "string \<Rightarrow> js_error \<Rightarrow> state \<Rightarrow> state" where
  "consoleError label err s = s\<lparr>console := console s @ [(label, err)]\<rparr>"

section \<open>UI update functions\<close>

definition showTypingIndicator :: "bool \<Rightarrow> state \<Rightarrow> state" where
  "showTypingIndicator show s =
     s\<lparr>typingIndicator := setDisplay (if show then ''flex'' else ''none'') (typingIndicator s)\<rparr>"

text \<open>
  \<open>classList.add\<close> throws a \<open>SyntaxError\<close> on an empty token, which is what a sender
  other than \<open>user\<close> and \<open>model\<close> produces; nothing has been appended then.
\<close>

definition addMessageToUI :: "string \<Rightarrow> string \<Rightarrow> state \<Rightarrow> outcome" where
  "addMessageToUI message sender s =
     (let cls = (if sender = ''user'' then ''user-message''
                 else if sender = ''model'' then ''bot-message'' else [])
      in if cls = [] then Throw (SyntaxError ''The token provided must not be empty.'') s
         else Normal (s\<lparr>chatBox := chatBox s @ [Message cls message]\<rparr>))"

definition resetChatArea :: "state \<Rightarrow> state" where
  "resetChatArea s =
     s\<lparr>chatBox := (if suggestionsContainer s \<noteq> None then [Suggestions] else []),
       suggestionsContainer := setDisplay ''flex'' (suggestionsContainer s),
       chatTitle := ''New Chat'',
       shareChatBtn := setDisplay ''none'' (shareChatBtn s),
       exportMenuBtn := setDisplay ''none'' (exportMenuBtn s)\<rparr>"

section \<open>API interaction\<close>

text \<open>
  Each function takes the replies to the calls of \<open>fetch\<close> it may issue, in program
  order, and runs without another handler interleaving at its suspension points.
\<close>

definition addLink :: "(string \<Rightarrow> int option) \<Rightarrow> state \<Rightarrow> conv \<Rightarrow> state" where
  "addLink tn s c =
     (let isCurrent = looseEq tn (conv_id c) (currentConversationId s);
          l = \<lparr>href = ''/conversation/'' @ toString (conv_id c),
               textContent = conv_title c,
               dataId = toString (conv_id c),
               active = isCurrent\<rparr>
      in s\<lparr>chatTitle := (if isCurrent then conv_title c else chatTitle s),
           conversationHistory := map_option (\<lambda>ls. ls @ [l]) (conversationHistory s)\<rparr>)"

text \<open>
  \<open>loadConversationHistory\<close> from the point where its fetch has been issued (lines 134
  to 151): what runs when the reply arrives.
\<close>

definition loadConversationHistory_reply ::
  "(string \<Rightarrow> int option) \<Rightarrow> history_reply \<Rightarrow> state \<Rightarrow> state" where
  "loadConversationHistory_reply tn r s1 =
     (case r of
        HistoryRejected m \<Rightarrow> consoleError ''Failed to load history:'' (Error m) s1
      | HistoryNotArray \<Rightarrow>
          consoleError ''Failed to load history:''
            (TypeError ''conversations.forEach is not a function'')
            (s1\<lparr>conversationHistory := Some []\<rparr>)
      | HistoryArray convs \<Rightarrow> foldl (addLink tn) (s1\<lparr>conversationHistory := Some []\<rparr>) convs)"

definition loadConversationHistory ::
  "(string \<Rightarrow> int option) \<Rightarrow> history_reply \<Rightarrow> state \<Rightarrow> state" where
  "loadConversationHistory tn r s =
     (if conversationHistory s = None then s
      else loadConversationHistory_reply tn r (fetch (Request ''GET'' ''/conversations'' None) s))"

text \<open>Lines 72 to 79 of \<open>sendMessage\<close>: create the conversation when none is active.\<close>

definition sendMessage_create ::
  "(string \<Rightarrow> int option) \<Rightarrow> jsval fetched \<Rightarrow> history_reply \<Rightarrow> state \<Rightarrow> outcome" where
  "sendMessage_create tn rn rh s =
     (if \<not> truthy (currentConversationId s) then
        (let s1 = fetch (Request ''POST'' ''/new_conversation'' None) s in
         case rn of
           Rejected m \<Rightarrow> Throw (Error m) s1
         | Body e cid \<Rightarrow>
             if truthy e then Throw (Error (toString e)) s1
             else Normal (loadConversationHistory tn rh
                    (pushState (''/conversation/'' @ toString cid)
                       (s1\<lparr>currentConversationId := cid\<rparr>))))
      else Normal s)"

text \<open>Lines 81 to 90: send the message, render the reply, refresh the sidebar.\<close>

definition sendMessage_send ::
  "(string \<Rightarrow> int option) \<Rightarrow> string \<Rightarrow> string fetched \<Rightarrow> history_reply \<Rightarrow> state \<Rightarrow> outcome" where
  "sendMessage_send tn message rs rh s =
     (let s1 = fetch (Request ''POST''
                  (''/conversations/'' @ toString (currentConversationId s) @ ''/send'')
                  (Some message)) s in
      case rs of
        Rejected m \<Rightarrow> Throw (Error m) s1
      | Body e response \<Rightarrow>
          if truthy e then Throw (Error (toString e)) s1
          else (case addMessageToUI response ''model'' s1 of
                  Throw err s2 \<Rightarrow> Throw err s2
                | Normal s2 \<Rightarrow> Normal (loadConversationHistory tn rh s2)))"

definition sendMessage_try ::
  "(string \<Rightarrow> int option) \<Rightarrow> string \<Rightarrow> jsval fetched \<Rightarrow> history_reply \<Rightarrow>
   string fetched \<Rightarrow> history_reply \<Rightarrow> state \<Rightarrow> outcome" where
  "sendMessage_try tn message rn rh1 rs rh2 s =
     (case sendMessage_create tn rn rh1 s of
        Throw err s1 \<Rightarrow> Throw err s1
      | Normal s1 \<Rightarrow> sendMessage_send tn message rs rh2 s1)"

text \<open>
  \<open>sendMessage\<close>: the replies are those of the create call, of the sidebar refresh after
  it, of the send call and of the sidebar refresh after it. \<open>Throw\<close> is the returned
  promise rejecting.
\<close>

definition sendMessage ::
  "(string \<Rightarrow> int option) \<Rightarrow> string \<Rightarrow> jsval fetched \<Rightarrow> history_reply \<Rightarrow>
   string fetched \<Rightarrow> history_reply \<Rightarrow> state \<Rightarrow> outcome" where
  "sendMessage tn message rn rh1 rs rh2 s =
     (if message = [] then Normal s
      else
        (case addMessageToUI message ''user''
                (s\<lparr>suggestionsContainer := setDisplay ''none'' (suggestionsContainer s)\<rparr>) of
           Throw err s1 \<Rightarrow> Throw err s1
         | Normal s1 \<Rightarrow>
             (case (case sendMessage_try tn message rn rh1 rs rh2 (showTypingIndicator True s1) of
                      Throw err s2 \<Rightarrow>
                        addMessageToUI (''Error: '' @ errorMessage err) ''model'' s2
                    | Normal s2 \<Rightarrow> Normal s2) of
                Throw err s3 \<Rightarrow> Throw err (showTypingIndicator False s3)
              | Normal s3 \<Rightarrow> Normal (showTypingIndicator False s3))))"

text \<open>\<open>data.messages.forEach(msg => addMessageToUI(msg.content, msg.sender))\<close>\<close>

fun addMessages :: "msg list \<Rightarrow> state \<Rightarrow> outcome" where
  "addMessages [] s = Normal s"
| "addMessages (m # ms) s =
     (case addMessageToUI (msg_content m) (msg_sender m) s of
        Throw err s1 \<Rightarrow> Throw err s1
      | Normal s1 \<Rightarrow> addMessages ms s1)"

definition toggleActive :: "(string \<Rightarrow> int option) \<Rightarrow> jsval \<Rightarrow> link \<Rightarrow> link" where
  "toggleActive tn convId l = l\<lparr>active := looseEq tn (JStr (dataId l)) convId\<rparr>"

text \<open>The \<open>catch\<close> block of \<open>loadConversation\<close>.\<close>

definition loadConversation_catch :: "js_error \<Rightarrow> state \<Rightarrow> state" where
  "loadConversation_catch err s =
     resetChatArea (consoleError ''Failed to load conversation:'' err s)"

text \<open>
  \<open>loadConversation\<close> from the point where its fetch has been issued (lines 108 to 128):
  what runs when the reply arrives. The links matched by \<open>.conversation-link\<close> are those
  of the sidebar.
\<close>

definition loadConversation_reply ::
  "(string \<Rightarrow> int option) \<Rightarrow> jsval \<Rightarrow> conversation fetched \<Rightarrow> state \<Rightarrow> state" where
  "loadConversation_reply tn convId r s1 =
     (case r of
        Rejected m \<Rightarrow> loadConversation_catch (Error m) s1
      | Body e data \<Rightarrow>
          if truthy e then loadConversation_catch (Error (toString e)) s1
          else
            (case addMessages (data_messages data)
                    (s1\<lparr>chatBox := [],
                        suggestionsContainer := setDisplay ''none'' (suggestionsContainer s1)\<rparr>) of
               Throw err s2 \<Rightarrow> loadConversation_catch err s2
             | Normal s2 \<Rightarrow>
                 (let s3 = pushState (''/conversation/'' @ toString convId)
                             (s2\<lparr>chatTitle := data_title data,
                                 currentConversationId := convId,
                                 shareChatBtn := setDisplay ''flex'' (shareChatBtn s2),
                                 exportMenuBtn := setDisplay ''flex'' (exportMenuBtn s2)\<rparr>)
                  in s3\<lparr>conversationHistory :=
                         map_option (map (toggleActive tn convId)) (conversationHistory s3)\<rparr>)))"

definition loadConversation ::
  "(string \<Rightarrow> int option) \<Rightarrow> jsval \<Rightarrow> conversation fetched \<Rightarrow> state \<Rightarrow> state" where
  "loadConversation tn convId r s =
     (if \<not> truthy convId then
        pushState ''/'' ((resetChatArea s)\<lparr>currentConversationId := JNull\<rparr>)
      else
        loadConversation_reply tn convId r
          (fetch (Request ''GET'' (''/conversations/'' @ toString convId) None) s))"

definition handleShare :: "string fetched \<Rightarrow> state \<Rightarrow> state" where
  "handleShare r s =
     (if \<not> truthy (currentConversationId s) then s
      else
        (let s1 = fetch (Request ''POST''
                    (''/conversations/'' @ toString (currentConversationId s) @ ''/share'')
                    None) s in
         case r of
           Rejected m \<Rightarrow> s1\<lparr>alerts := alerts s1 @ [''Could not share chat: '' @ m]\<rparr>
         | Body e share_url \<Rightarrow>
             if truthy e
             then s1\<lparr>alerts := alerts s1 @ [''Could not share chat: '' @ toString e]\<rparr>
             else s1\<lparr>shareLinkInput := share_url, shareModal := ''flex''\<rparr>))"

section \<open>Event listeners and initial load\<close>

text \<open>
  The \<open>submit\<close> listener of the message form: \<open>sendMessage\<close> on the trimmed input, whose
  promise is dropped, and the input box cleared. \<open>String.prototype.trim\<close> belongs to the
  runtime, like the string-to-number conversion: it is the parameter \<open>trim\<close>.
\<close>

definition messageForm_submit ::
  "(string \<Rightarrow> int option) \<Rightarrow> (string \<Rightarrow> string) \<Rightarrow> jsval fetched \<Rightarrow> history_reply \<Rightarrow>
   string fetched \<Rightarrow> history_reply \<Rightarrow> state \<Rightarrow> state" where
  "messageForm_submit tn trim rn rh1 rs rh2 s =
     (case sendMessage tn (trim (messageInput s)) rn rh1 rs rh2 s of
        Normal s1 \<Rightarrow> s1\<lparr>messageInput := []\<rparr>
      | Throw err s1 \<Rightarrow> s1\<lparr>messageInput := []\<rparr>)"

text \<open>
  Trimming as the removal of the leading and trailing characters that a given predicate
  \<open>ws\<close> counts as white space, whatever that set is; and, for the concrete runs below,
  the white space of ASCII (space, tab, line feed, vertical tab, form feed, carriage
  return), a subset of what every runtime trims.
\<close>

definition trimWith :: "(char \<Rightarrow> bool) \<Rightarrow> string \<Rightarrow> string" where
  "trimWith ws s = rev (dropWhile ws (rev (dropWhile ws s)))"

definition asciiWhiteSpace :: "char \<Rightarrow> bool" where
  "asciiWhiteSpace c = (c \<in> set [CHR '' '', CHR 0x09, CHR 0x0A, CHR 0x0B, CHR 0x0C, CHR 0x0D])"

text \<open>
  \<open>path.match(/\/conversation\/(\d+)/)\<close>: the leftmost place where \<open>/conversation/\<close>
  is followed by a digit, capturing the longest run of digits there.
\<close>

fun matchConversation :: "string \<Rightarrow> string option" where
  "matchConversation [] = None"
| "matchConversation (c # cs) =
     (if take 14 (c # cs) = ''/conversation/'' \<and> takeWhile isDigit (drop 14 (c # cs)) \<noteq> []
      then Some (takeWhile isDigit (drop 14 (c # cs)))
      else matchConversation cs)"

definition init_convId :: "string \<Rightarrow> jsval" where
  "init_convId path = (case matchConversation path of Some d \<Rightarrow> JStr d | None \<Rightarrow> JNull)"

text \<open>
  \<open>init\<close> on a page that has \<open>.app-layout\<close> (\<open>appLayout\<close>). The theme, which no other
  function reads, is left out. The two calls are not awaited. \<open>loadConversation\<close> on a
  falsy id has no suspension point and finishes before \<open>loadConversationHistory\<close>
  starts. On a truthy id it issues its fetch and suspends, \<open>loadConversationHistory\<close>
  issues its own, and the two replies are then handled in the order they arrive:
  \<open>historyFirst\<close> says that the sidebar's reply arrives first.
\<close>

definition init ::
  "(string \<Rightarrow> int option) \<Rightarrow> bool \<Rightarrow> bool \<Rightarrow> conversation fetched \<Rightarrow> history_reply \<Rightarrow>
   state \<Rightarrow> state" where
  "init tn appLayout historyFirst rc rh s =
     (if appLayout then
        (let convId = init_convId (pathname s) in
         if \<not> truthy convId
         then loadConversationHistory tn rh (loadConversation tn convId rc s)
         else
           (let s1 = fetch (Request ''GET'' (''/conversations/'' @ toString convId) None) s in
            if conversationHistory s1 = None then loadConversation_reply tn convId rc s1
            else
              (let s2 = fetch (Request ''GET'' ''/conversations'' None) s1 in
               if historyFirst
               then loadConversation_reply tn convId rc (loadConversationHistory_reply tn rh s2)
               else loadConversationHistory_reply tn rh (loadConversation_reply tn convId rc s2))))
      else s)"

section \<open>Notions used to state the properties\<close>

text \<open>The message bubbles of the chat box, in document order.\<close>

definition renderedMessages :: "state \<Rightarrow> node list" where
  "renderedMessages s = filter (\<lambda>n. n \<noteq> Suggestions) (chatBox s)"

text \<open>The suggestions are visible when their container is in the chat box and displayed.\<close>

definition suggestionsVisible :: "state \<Rightarrow> bool" where
  "suggestionsVisible s =
     (Suggestions \<in> set (chatBox s) \<and> suggestionsContainer s = Some ''flex'')"

text \<open>A control is hidden when the page has none or its display is \<open>none\<close>.\<close>

definition hidden :: "string option \<Rightarrow> bool" where
  "hidden el = (case el of None \<Rightarrow> True | Some d \<Rightarrow> d = ''none'')"

text \<open>
  The observable state of the conversation view: rendered messages, suggestions
  visibility, displayed title, share and export controls hidden, conversation id and URL.
\<close>

definition observable ::
  "state \<Rightarrow> node list \<times> bool \<times> string \<times> bool \<times> bool \<times> jsval \<times> string" where
  "observable s =
     (renderedMessages s, suggestionsVisible s, chatTitle s,
      hidden (shareChatBtn s), hidden (exportMenuBtn s),
      currentConversationId s, pathname s)"

text \<open>A reply that makes the caller throw, and the message of the error thrown.\<close>

fun failed :: "'a fetched \<Rightarrow> bool" where
  "failed (Rejected m) = True"
| "failed (Body e d) = truthy e"

fun failureMessage :: "'a fetched \<Rightarrow> string" where
  "failureMessage (Rejected m) = m"
| "failureMessage (Body e d) = toString e"

text \<open>The calls a sidebar refresh issues in a state: one if the page has a sidebar.\<close>

definition sidebarRequests :: "state \<Rightarrow> request list" where
  "sidebarRequests s =
     (if conversationHistory s = None then [] else [Request ''GET'' ''/conversations'' None])"

definition createRequest :: request where
  "createRequest = Request ''POST'' ''/new_conversation'' None"

definition sendRequest :: "jsval \<Rightarrow> string \<Rightarrow> request" where
  "sendRequest cid message =
     Request ''POST'' (''/conversations/'' @ toString cid @ ''/send'') (Some message)"

text \<open>
  The chat page as served at \<open>/\<close>, before any interaction: every element present, no
  conversation active, an empty sidebar.
\<close>

definition freshPage :: state where
  "freshPage =
     \<lparr>currentConversationId = JNull, chatBox = [Suggestions],
      suggestionsContainer = Some ''flex'', typingIndicator = Some ''none'',
      chatTitle = ''New Chat'', shareChatBtn = Some ''none'', exportMenuBtn = Some ''none'',
      conversationHistory = Some [], shareLinkInput = [], shareModal = ''none'',
      messageInput = [], pathname = ''/'', historyEntries = [], requests = [],
      alerts = [], console = []\<rparr>"

text \<open>The page showing conversation 5, with two sidebar entries.\<close>

definition activePage :: state where
  "activePage =
     freshPage\<lparr>currentConversationId := JStr ''5'',
       chatBox := [Message ''user-message'' ''Hi'', Message ''bot-message'' ''Hello!''],
       suggestionsContainer := Some ''none'', chatTitle := ''Greetings'',
       shareChatBtn := Some ''flex'', exportMenuBtn := Some ''flex'',
       conversationHistory := Some
         [\<lparr>href = ''/conversation/5'', textContent = ''Greetings'', dataId = ''5'', active = True\<rparr>,
          \<lparr>href = ''/conversation/42'', textContent = ''Plans'', dataId = ''42'', active = False\<rparr>],
       pathname := ''/conversation/5''\<rparr>"

text \<open>
  What the claims say of a sidebar refresh: the link rendered for a fetched entry when
  the active id is \<open>cid\<close>, and the title displayed after the entries have been rendered,
  which is that of the last entry whose id matches \<open>cid\<close>, or the old title if none does.
\<close>

definition sidebarLink :: "(string \<Rightarrow> int option) \<Rightarrow> jsval \<Rightarrow> conv \<Rightarrow> link" where
  "sidebarLink tn cid c =
     \<lparr>href = ''/conversation/'' @ toString (conv_id c), textContent = conv_title c,
      dataId = toString (conv_id c), active = looseEq tn (conv_id c) cid\<rparr>"

definition adoptedTitle :: "(string \<Rightarrow> int option) \<Rightarrow> jsval \<Rightarrow> string \<Rightarrow> conv list \<Rightarrow> string" where
  "adoptedTitle tn cid old convs =
     (case rev (filter (\<lambda>c. looseEq tn (conv_id c) cid) convs) of
        [] \<Rightarrow> old
      | c # _ \<Rightarrow> conv_title c)"

text \<open>The state an outcome ends in, and the calls issued between two states.\<close>

fun finalState :: "outcome \<Rightarrow> state" where
  "finalState (Normal s) = s"
| "finalState (Throw err s) = s"

definition issuedBetween :: "state \<Rightarrow> state \<Rightarrow> request list" where
  "issuedBetween s s' = drop (length (requests s)) (requests s')"

text \<open>
  The inline error of the send path, and the message of the first step of
  \<open>sendMessage\<close> that fails, if any: the create call when no id is active, then the send
  call.
\<close>

definition errorBubble :: "string \<Rightarrow> node" where
  "errorBubble m = Message ''bot-message'' (''Error: '' @ m)"

definition sendFailure :: "state \<Rightarrow> jsval fetched \<Rightarrow> string fetched \<Rightarrow> string option" where
  "sendFailure s rn rs =
     (if \<not> truthy (currentConversationId s) \<and> failed rn then Some (failureMessage rn)
      else if failed rs then Some (failureMessage rs)
      else None)"

text \<open>The bubble of a server message whose sender is \<open>user\<close> or \<open>model\<close>.\<close>

definition bubble :: "msg \<Rightarrow> node" where
  "bubble m =
     Message (if msg_sender m = ''user'' then ''user-message'' else ''bot-message'') (msg_content m)"

text \<open>The links of the sidebar, and those marked active.\<close>

definition links :: "state \<Rightarrow> link list" where
  "links s = (case conversationHistory s of None \<Rightarrow> [] | Some ls \<Rightarrow> ls)"

definition activeLinks :: "state \<Rightarrow> link list" where
  "activeLinks s = filter active (links s)"

text \<open>A string starts with \<open>/conversation/\<close> followed by a digit.\<close>

definition matchAt :: "string \<Rightarrow> bool" where
  "matchAt s = (take 14 s = ''/conversation/'' \<and> takeWhile isDigit (drop 14 s) \<noteq> [])"

section \<open>Sharing\<close>

text \<open>
  Claim C8. \<open>handleShare\<close> does nothing (no network call, no state change) when no
  conversation id is active. With an active id it issues the share call; on success it
  puts the returned \<open>share_url\<close> into the copyable input and opens the share modal, and on
  any failure (rejected fetch or parse, or a reply with an \<open>error\<close> field) the only
  effect besides the call is one alert dialog: the chat box and everything else stay as
  they were.
\<close>

theorem handleShare_effect:
  "(\<not> truthy (currentConversationId s) \<longrightarrow> handleShare r s = s) \<and>
   (truthy (currentConversationId s) \<longrightarrow>
      handleShare r s =
        (if failed r
         then s\<lparr>requests := requests s @
                  [Request ''POST''
                     (''/conversations/'' @ toString (currentConversationId s) @ ''/share'') None],
                alerts := alerts s @ [''Could not share chat: '' @ failureMessage r]\<rparr>
         else s\<lparr>requests := requests s @
                  [Request ''POST''
                     (''/conversations/'' @ toString (currentConversationId s) @ ''/share'') None],
                shareLinkInput := (case r of Body e url \<Rightarrow> url | Rejected m \<Rightarrow> shareLinkInput s),
                shareModal := ''flex''\<rparr>))"
  by (cases r) (simp_all add: handleShare_def fetch_def)

theorem handleShare_effect_witness:
  "truthy (currentConversationId activePage) \<and>
   shareLinkInput (handleShare (Body JUndefined ''/shared/abc'') activePage) = ''/shared/abc'' \<and>
   shareModal (handleShare (Body JUndefined ''/shared/abc'') activePage) = ''flex'' \<and>
   alerts (handleShare (Rejected ''Failed to fetch'') activePage)
     = [''Could not share chat: Failed to fetch''] \<and>
   chatBox (handleShare (Rejected ''Failed to fetch'') activePage) = chatBox activePage \<and>
   \<not> truthy (currentConversationId freshPage) \<and>
   handleShare (Rejected ''Failed to fetch'') freshPage = freshPage"
  using handleShare_effect [of activePage "Body JUndefined ''/shared/abc''"]
    handleShare_effect [of activePage "Rejected ''Failed to fetch''"]
    handleShare_effect [of freshPage "Rejected ''Failed to fetch''"]
  by (simp add: activePage_def freshPage_def)

section \<open>The sidebar refresh in closed form\<close>

lemma adoptedTitle_snoc:
  "adoptedTitle tn cid old (cs @ [c]) =
     (if looseEq tn (conv_id c) cid then conv_title c else adoptedTitle tn cid old cs)"
  by (simp add: adoptedTitle_def)

lemma foldl_addLink:
  "foldl (addLink tn) s cs =
     s\<lparr>chatTitle := adoptedTitle tn (currentConversationId s) (chatTitle s) cs,
       conversationHistory :=
         map_option (\<lambda>ls. ls @ map (sidebarLink tn (currentConversationId s)) cs)
           (conversationHistory s)\<rparr>"
proof (induction cs rule: rev_induct)
  case Nil
  show ?case by (simp add: adoptedTitle_def option.map_ident)
next
  case (snoc c cs)
  let ?s1 = "s\<lparr>chatTitle := adoptedTitle tn (currentConversationId s) (chatTitle s) cs,
       conversationHistory :=
         map_option (\<lambda>ls. ls @ map (sidebarLink tn (currentConversationId s)) cs)
           (conversationHistory s)\<rparr>"
  have "foldl (addLink tn) s (cs @ [c]) = addLink tn (foldl (addLink tn) s cs) c"
    by simp
  also have "\<dots> = addLink tn ?s1 c"
    by (simp only: snoc)
  also have "\<dots> = s\<lparr>chatTitle := adoptedTitle tn (currentConversationId s) (chatTitle s) (cs @ [c]),
       conversationHistory :=
         map_option (\<lambda>ls. ls @ map (sidebarLink tn (currentConversationId s)) (cs @ [c]))
           (conversationHistory s)\<rparr>"
    unfolding addLink_def
    by (simp add: adoptedTitle_snoc Let_def sidebarLink_def option.map_comp comp_def)
  finally show ?case .
qed

lemma loadConversationHistory_eq:
  "loadConversationHistory tn r s =
     (if conversationHistory s = None then s
      else case r of
        HistoryRejected m \<Rightarrow>
          s\<lparr>requests := requests s @ [Request ''GET'' ''/conversations'' None],
            console := console s @ [(''Failed to load history:'', Error m)]\<rparr>
      | HistoryNotArray \<Rightarrow>
          s\<lparr>requests := requests s @ [Request ''GET'' ''/conversations'' None],
            conversationHistory := Some [],
            console := console s @ [(''Failed to load history:'',
                         TypeError ''conversations.forEach is not a function'')]\<rparr>
      | HistoryArray convs \<Rightarrow>
          s\<lparr>requests := requests s @ [Request ''GET'' ''/conversations'' None],
            chatTitle := adoptedTitle tn (currentConversationId s) (chatTitle s) convs,
            conversationHistory := Some (map (sidebarLink tn (currentConversationId s)) convs)\<rparr>)"
  by (simp add: loadConversationHistory_def loadConversationHistory_reply_def fetch_def consoleError_def foldl_addLink Let_def
      split: history_reply.splits)

lemma loadConversationHistory_frame:
  "currentConversationId (loadConversationHistory tn r s) = currentConversationId s"
  "chatBox (loadConversationHistory tn r s) = chatBox s"
  "typingIndicator (loadConversationHistory tn r s) = typingIndicator s"
  "suggestionsContainer (loadConversationHistory tn r s) = suggestionsContainer s"
  "pathname (loadConversationHistory tn r s) = pathname s"
  "requests (loadConversationHistory tn r s) = requests s @ sidebarRequests s"
  "(conversationHistory (loadConversationHistory tn r s) = None) = (conversationHistory s = None)"
  by (simp_all add: loadConversationHistory_eq sidebarRequests_def split: history_reply.splits)

section \<open>Refreshing the sidebar\<close>

text \<open>
  Claim C6, as stated, fails: a refresh whose fetch is rejected leaves the previous
  entries in the sidebar, and when two fetched entries match the active id the title of
  the first is not the one displayed.
\<close>

theorem loadConversationHistory_stale_counterexample:
  "conversationHistory
     (loadConversationHistory decimalToNumber (HistoryRejected ''Failed to fetch'') activePage)
   = Some [\<lparr>href = ''/conversation/5'', textContent = ''Greetings'', dataId = ''5'', active = True\<rparr>,
           \<lparr>href = ''/conversation/42'', textContent = ''Plans'', dataId = ''42'', active = False\<rparr>]
   \<and> chatTitle
     (loadConversationHistory decimalToNumber
        (HistoryArray [\<lparr>conv_id = JNum 5, conv_title = ''First''\<rparr>,
                       \<lparr>conv_id = JNum 5, conv_title = ''Second''\<rparr>]) activePage)
   \<noteq> ''First''"
  by (simp add: loadConversationHistory_def loadConversationHistory_reply_def fetch_def consoleError_def addLink_def activePage_def
      freshPage_def decimalToNumber_def isDigit_def)

text \<open>
  Claim C6, amended. On a page with a sidebar, a refresh whose fetch returns an array
  replaces the rendered entries by one link per fetched entry, in the order fetched; a
  link is marked active exactly when its entry's id loosely equals the active id; the
  displayed title becomes that of the last matching entry, hence of the matching entry
  when there is only one, and stays when there is none. A refresh whose fetch is rejected
  leaves the sidebar as it was, and one whose reply is not an array leaves it empty.
\<close>

theorem loadConversationHistory_replaces:
  "conversationHistory s \<noteq> None \<Longrightarrow>
     conversationHistory (loadConversationHistory tn (HistoryArray convs) s)
       = Some (map (sidebarLink tn (currentConversationId s)) convs) \<and>
     chatTitle (loadConversationHistory tn (HistoryArray convs) s)
       = adoptedTitle tn (currentConversationId s) (chatTitle s) convs \<and>
     (\<forall>c. filter (\<lambda>c. looseEq tn (conv_id c) (currentConversationId s)) convs = [c] \<longrightarrow>
        chatTitle (loadConversationHistory tn (HistoryArray convs) s) = conv_title c) \<and>
     (filter (\<lambda>c. looseEq tn (conv_id c) (currentConversationId s)) convs = [] \<longrightarrow>
        chatTitle (loadConversationHistory tn (HistoryArray convs) s) = chatTitle s) \<and>
     conversationHistory (loadConversationHistory tn (HistoryRejected m) s)
       = conversationHistory s \<and>
     conversationHistory (loadConversationHistory tn HistoryNotArray s) = Some []"
  by (simp add: loadConversationHistory_eq adoptedTitle_def)

theorem loadConversationHistory_replaces_witness:
  "conversationHistory activePage \<noteq> None \<and>
   conversationHistory
     (loadConversationHistory decimalToNumber
        (HistoryArray [\<lparr>conv_id = JNum 5, conv_title = ''Hello there''\<rparr>,
                       \<lparr>conv_id = JNum 6, conv_title = ''Other''\<rparr>]) activePage)
   = Some [\<lparr>href = ''/conversation/5'', textContent = ''Hello there'', dataId = ''5'', active = True\<rparr>,
           \<lparr>href = ''/conversation/6'', textContent = ''Other'', dataId = ''6'', active = False\<rparr>] \<and>
   chatTitle
     (loadConversationHistory decimalToNumber
        (HistoryArray [\<lparr>conv_id = JNum 5, conv_title = ''Hello there''\<rparr>,
                       \<lparr>conv_id = JNum 6, conv_title = ''Other''\<rparr>]) activePage)
   = ''Hello there''"
proof -
  have h: "conversationHistory activePage \<noteq> None"
    by (simp add: activePage_def freshPage_def)
  show ?thesis
    using h loadConversationHistory_replaces [OF h, of decimalToNumber
        "[\<lparr>conv_id = JNum 5, conv_title = ''Hello there''\<rparr>,
          \<lparr>conv_id = JNum 6, conv_title = ''Other''\<rparr>]"]
    by (simp add: activePage_def freshPage_def sidebarLink_def adoptedTitle_def
        decimalToNumber_def isDigit_def dec.simps)
qed

section \<open>Loading a conversation\<close>

lemma loadConversation_null_eq:
  "\<not> truthy convId \<Longrightarrow>
     loadConversation tn convId r s =
       s\<lparr>currentConversationId := JNull,
         chatBox := (if suggestionsContainer s \<noteq> None then [Suggestions] else []),
         suggestionsContainer := setDisplay ''flex'' (suggestionsContainer s),
         chatTitle := ''New Chat'',
         shareChatBtn := setDisplay ''none'' (shareChatBtn s),
         exportMenuBtn := setDisplay ''none'' (exportMenuBtn s),
         historyEntries := historyEntries s @ [pathname s],
         pathname := ''/''\<rparr>"
  by (simp add: loadConversation_def loadConversation_reply_def pushState_def resetChatArea_def)

lemma hidden_setDisplay_none: "hidden (setDisplay ''none'' el)"
  by (cases el) (simp_all add: hidden_def setDisplay_def)

lemma setDisplay_idem: "setDisplay d (setDisplay d' el) = setDisplay d el"
  by (cases el) (simp_all add: setDisplay_def)

lemma setDisplay_Some: "el \<noteq> None \<Longrightarrow> setDisplay d el = Some d"
  by (cases el) (simp_all add: setDisplay_def)

lemma setDisplay_None: "(setDisplay d el = None) = (el = None)"
  by (cases el) (simp_all add: setDisplay_def)

text \<open>
  Claim C5. \<open>loadConversation\<close> on a falsy id (null, undefined, the empty string, 0)
  is idempotent on the observable state, and from any state it yields: no rendered
  message, the suggestions visible (on a page that has the suggestions container), the
  title \<open>New Chat\<close>, the share and export controls hidden, no conversation id, and the
  URL \<open>/\<close>; it issues no network call. A second run changes nothing but the session
  history, which gets one more entry.
\<close>

theorem loadConversation_null_idempotent:
  "\<not> truthy convId \<Longrightarrow>
     observable (loadConversation tn convId r' (loadConversation tn convId r s))
       = observable (loadConversation tn convId r s) \<and>
     loadConversation tn convId r' (loadConversation tn convId r s)
       = (loadConversation tn convId r s)
           \<lparr>historyEntries := historyEntries (loadConversation tn convId r s) @ [''/'']\<rparr> \<and>
     renderedMessages (loadConversation tn convId r s) = [] \<and>
     (suggestionsContainer s \<noteq> None \<longrightarrow> suggestionsVisible (loadConversation tn convId r s)) \<and>
     chatTitle (loadConversation tn convId r s) = ''New Chat'' \<and>
     hidden (shareChatBtn (loadConversation tn convId r s)) \<and>
     hidden (exportMenuBtn (loadConversation tn convId r s)) \<and>
     currentConversationId (loadConversation tn convId r s) = JNull \<and>
     pathname (loadConversation tn convId r s) = ''/'' \<and>
     requests (loadConversation tn convId r s) = requests s"
proof -
  assume f: "\<not> truthy convId"
  let ?s1 = "loadConversation tn convId r s"
  have twice: "loadConversation tn convId r' ?s1 = ?s1\<lparr>historyEntries := historyEntries ?s1 @ [''/'']\<rparr>"
    by (simp add: loadConversation_null_eq [OF f] setDisplay_idem setDisplay_None)
  have obs: "observable (loadConversation tn convId r' ?s1) = observable ?s1"
    by (simp add: twice observable_def renderedMessages_def suggestionsVisible_def)
  have rest: "renderedMessages ?s1 = []"
    "suggestionsContainer s \<noteq> None \<longrightarrow> suggestionsVisible ?s1"
    "chatTitle ?s1 = ''New Chat''" "hidden (shareChatBtn ?s1)" "hidden (exportMenuBtn ?s1)"
    "currentConversationId ?s1 = JNull" "pathname ?s1 = ''/''" "requests ?s1 = requests s"
    by (simp_all add: loadConversation_null_eq [OF f] renderedMessages_def suggestionsVisible_def
        hidden_setDisplay_none setDisplay_Some)
  from twice obs rest show ?thesis by simp
qed

theorem loadConversation_null_idempotent_witness:
  "\<not> truthy JNull \<and> suggestionsContainer activePage \<noteq> None \<and>
   observable (loadConversation decimalToNumber JNull (Rejected [])
                 (loadConversation decimalToNumber JNull (Rejected []) activePage))
     = ([], True, ''New Chat'', True, True, JNull, ''/'') \<and>
   observable (loadConversation decimalToNumber JNull (Rejected []) activePage)
     = ([], True, ''New Chat'', True, True, JNull, ''/'')"
proof -
  have h: "\<not> truthy JNull" by simp
  have sc: "suggestionsContainer activePage \<noteq> None"
    by (simp add: activePage_def freshPage_def)
  note t = loadConversation_null_idempotent
    [OF h, of decimalToNumber "Rejected []" "Rejected []" activePage]
  have once: "observable (loadConversation decimalToNumber JNull (Rejected []) activePage)
      = ([], True, ''New Chat'', True, True, JNull, ''/'')"
    unfolding observable_def using t sc by blast
  have twice: "observable (loadConversation decimalToNumber JNull (Rejected [])
                 (loadConversation decimalToNumber JNull (Rejected []) activePage))
      = observable (loadConversation decimalToNumber JNull (Rejected []) activePage)"
    using t by blast
  from h sc once twice show ?thesis by simp
qed

text \<open>
  Claim C1. Evaluated on the page that shows conversation 5: when the load of
  conversation 42 fails, by an \<open>error\<close> field or by a rejected fetch, the view is reset
  but the conversation id stays 5 and the URL stays \<open>/conversation/5\<close>, whereas
  \<open>loadConversation(null)\<close> ends with no id and the URL \<open>/\<close>.
\<close>

theorem loadConversation_failure_keeps_id:
  "observable (loadConversation decimalToNumber (JStr ''42'')
       (Body (JStr ''not found'') \<lparr>data_title = [], data_messages = []\<rparr>) activePage)
     = ([], True, ''New Chat'', True, True, JStr ''5'', ''/conversation/5'') \<and>
   observable (loadConversation decimalToNumber (JStr ''42'') (Rejected ''Failed to fetch'') activePage)
     = ([], True, ''New Chat'', True, True, JStr ''5'', ''/conversation/5'') \<and>
   observable (loadConversation decimalToNumber JNull (Rejected ''Failed to fetch'') activePage)
     = ([], True, ''New Chat'', True, True, JNull, ''/'')"
  by (simp add: observable_def loadConversation_def loadConversation_reply_def loadConversation_catch_def resetChatArea_def
      consoleError_def fetch_def pushState_def renderedMessages_def suggestionsVisible_def
      hidden_def setDisplay_def activePage_def freshPage_def)

section \<open>Sending a message\<close>

lemma addMessageToUI_user:
  "addMessageToUI m ''user'' s = Normal (s\<lparr>chatBox := chatBox s @ [Message ''user-message'' m]\<rparr>)"
  by (simp add: addMessageToUI_def)

lemma addMessageToUI_model:
  "addMessageToUI m ''model'' s = Normal (s\<lparr>chatBox := chatBox s @ [Message ''bot-message'' m]\<rparr>)"
  by (simp add: addMessageToUI_def)

lemma sendMessage_create_active:
  "truthy (currentConversationId s) \<Longrightarrow> sendMessage_create tn rn rh s = Normal s"
  by (simp add: sendMessage_create_def)

lemma sendMessage_create_failed:
  "\<not> truthy (currentConversationId s) \<Longrightarrow> failed rn \<Longrightarrow>
     sendMessage_create tn rn rh s = Throw (Error (failureMessage rn)) (fetch createRequest s)"
  by (cases rn) (simp_all add: sendMessage_create_def createRequest_def)

lemma sendMessage_create_ok:
  "\<not> truthy (currentConversationId s) \<Longrightarrow> \<not> truthy e \<Longrightarrow>
     sendMessage_create tn (Body e cid) rh s =
       Normal (loadConversationHistory tn rh
                 (pushState (''/conversation/'' @ toString cid)
                    ((fetch createRequest s)\<lparr>currentConversationId := cid\<rparr>)))"
  by (simp add: sendMessage_create_def createRequest_def)

lemma sendMessage_send_failed:
  "failed rs \<Longrightarrow>
     sendMessage_send tn message rs rh s =
       Throw (Error (failureMessage rs)) (fetch (sendRequest (currentConversationId s) message) s)"
  by (cases rs) (simp_all add: sendMessage_send_def sendRequest_def)

lemma sendMessage_send_ok:
  "\<not> truthy e \<Longrightarrow>
     sendMessage_send tn message (Body e response) rh s =
       Normal (loadConversationHistory tn rh
                 ((fetch (sendRequest (currentConversationId s) message) s)
                    \<lparr>chatBox := chatBox s @ [Message ''bot-message'' response]\<rparr>))"
  by (simp add: sendMessage_send_def sendRequest_def addMessageToUI_model fetch_def)

text \<open>The state in which the \<open>try\<close> block of \<open>sendMessage\<close> starts.\<close>

lemma sendMessage_unfold:
  "message \<noteq> [] \<Longrightarrow>
     sendMessage tn message rn rh1 rs rh2 s =
       (case sendMessage_try tn message rn rh1 rs rh2
               (s\<lparr>suggestionsContainer := setDisplay ''none'' (suggestionsContainer s),
                  chatBox := chatBox s @ [Message ''user-message'' message],
                  typingIndicator := setDisplay ''flex'' (typingIndicator s)\<rparr>) of
          Throw err s2 \<Rightarrow>
            Normal (s2\<lparr>chatBox := chatBox s2 @ [errorBubble (errorMessage err)],
                      typingIndicator := setDisplay ''none'' (typingIndicator s2)\<rparr>)
        | Normal s2 \<Rightarrow> Normal (s2\<lparr>typingIndicator := setDisplay ''none'' (typingIndicator s2)\<rparr>))"
  by (simp add: sendMessage_def addMessageToUI_user addMessageToUI_model showTypingIndicator_def
      errorBubble_def split: outcome.splits)


lemma sendMessage_try_active:
  "truthy (currentConversationId t) \<Longrightarrow>
     sendMessage_try tn message rn rh1 rs rh2 t = sendMessage_send tn message rs rh2 t"
  by (simp add: sendMessage_try_def sendMessage_create_active)

lemma sendMessage_try_create_failed:
  "\<not> truthy (currentConversationId t) \<Longrightarrow> failed rn \<Longrightarrow>
     sendMessage_try tn message rn rh1 rs rh2 t
       = Throw (Error (failureMessage rn)) (fetch createRequest t)"
  by (simp add: sendMessage_try_def sendMessage_create_failed)

lemma sendMessage_try_create_ok:
  "\<not> truthy (currentConversationId t) \<Longrightarrow> \<not> truthy e \<Longrightarrow>
     sendMessage_try tn message (Body e cid) rh1 rs rh2 t
       = sendMessage_send tn message rs rh2
           (loadConversationHistory tn rh1
              (pushState (''/conversation/'' @ toString cid)
                 ((fetch createRequest t)\<lparr>currentConversationId := cid\<rparr>)))"
  by (simp add: sendMessage_try_def sendMessage_create_ok)

lemma sidebarRequests_loadConversationHistory:
  "sidebarRequests (loadConversationHistory tn r s) = sidebarRequests s"
  by (simp add: sidebarRequests_def loadConversationHistory_frame)

lemma not_failed_Body: "\<not> failed r \<Longrightarrow> \<exists>e d. r = Body e d \<and> \<not> truthy e"
  by (cases r) simp_all

lemmas sendMessage_steps =
  sendMessage_unfold sendMessage_try_active sendMessage_try_create_failed
  sendMessage_try_create_ok sendMessage_send_failed sendMessage_send_ok
  loadConversationHistory_frame sidebarRequests_loadConversationHistory

lemma sendMessage_trace_active:
  assumes "message \<noteq> []" "truthy (currentConversationId s)"
  shows "requests (finalState (sendMessage tn message rn rh1 rs rh2 s))
           = requests s @ sendRequest (currentConversationId s) message
                # (if failed rs then [] else sidebarRequests s)"
    and "currentConversationId (finalState (sendMessage tn message rn rh1 rs rh2 s))
           = currentConversationId s"
    and "sidebarRequests (finalState (sendMessage tn message rn rh1 rs rh2 s)) = sidebarRequests s"
proof -
  consider "failed rs" | e d where "rs = Body e d" "\<not> truthy e"
    using not_failed_Body by blast
  then have "requests (finalState (sendMessage tn message rn rh1 rs rh2 s))
           = requests s @ sendRequest (currentConversationId s) message
                # (if failed rs then [] else sidebarRequests s)
      \<and> currentConversationId (finalState (sendMessage tn message rn rh1 rs rh2 s))
           = currentConversationId s
      \<and> sidebarRequests (finalState (sendMessage tn message rn rh1 rs rh2 s)) = sidebarRequests s"
    using assms
    by cases (simp_all add: sendMessage_steps fetch_def sidebarRequests_def)
  then show "requests (finalState (sendMessage tn message rn rh1 rs rh2 s))
           = requests s @ sendRequest (currentConversationId s) message
                # (if failed rs then [] else sidebarRequests s)"
    and "currentConversationId (finalState (sendMessage tn message rn rh1 rs rh2 s))
           = currentConversationId s"
    and "sidebarRequests (finalState (sendMessage tn message rn rh1 rs rh2 s)) = sidebarRequests s"
    by simp_all
qed

lemma sendMessage_trace_create_failed:
  assumes "message \<noteq> []" "\<not> truthy (currentConversationId s)" "failed rn"
  shows "requests (finalState (sendMessage tn message rn rh1 rs rh2 s))
           = requests s @ [createRequest]"
    and "currentConversationId (finalState (sendMessage tn message rn rh1 rs rh2 s))
           = currentConversationId s"
  using assms by (simp_all add: sendMessage_steps fetch_def)

lemma sendMessage_trace_create_ok:
  assumes "message \<noteq> []" "\<not> truthy (currentConversationId s)" "\<not> truthy e"
  shows "requests (finalState (sendMessage tn message (Body e cid) rh1 rs rh2 s))
           = requests s @ createRequest # sidebarRequests s
               @ sendRequest cid message # (if failed rs then [] else sidebarRequests s)"
    and "currentConversationId (finalState (sendMessage tn message (Body e cid) rh1 rs rh2 s)) = cid"
    and "sidebarRequests (finalState (sendMessage tn message (Body e cid) rh1 rs rh2 s))
           = sidebarRequests s"
proof -
  consider "failed rs" | e' d where "rs = Body e' d" "\<not> truthy e'"
    using not_failed_Body by blast
  then have "requests (finalState (sendMessage tn message (Body e cid) rh1 rs rh2 s))
           = requests s @ createRequest # sidebarRequests s
               @ sendRequest cid message # (if failed rs then [] else sidebarRequests s)
      \<and> currentConversationId (finalState (sendMessage tn message (Body e cid) rh1 rs rh2 s)) = cid
      \<and> sidebarRequests (finalState (sendMessage tn message (Body e cid) rh1 rs rh2 s))
           = sidebarRequests s"
    using assms
    by cases (simp_all add: sendMessage_steps fetch_def pushState_def sidebarRequests_def)
  then show "requests (finalState (sendMessage tn message (Body e cid) rh1 rs rh2 s))
           = requests s @ createRequest # sidebarRequests s
               @ sendRequest cid message # (if failed rs then [] else sidebarRequests s)"
    and "currentConversationId (finalState (sendMessage tn message (Body e cid) rh1 rs rh2 s)) = cid"
    and "sidebarRequests (finalState (sendMessage tn message (Body e cid) rh1 rs rh2 s))
           = sidebarRequests s"
    by simp_all
qed

lemma createRequest_distinct:
  "createRequest \<noteq> sendRequest cid message"
  "sendRequest cid message \<noteq> createRequest"
  "createRequest \<notin> set (sidebarRequests s)"
  by (simp_all add: createRequest_def sendRequest_def sidebarRequests_def)


lemma trimWith_whitespace:
  assumes "\<forall>c \<in> set v. ws c"
  shows "trimWith ws v = []"
proof -
  have d: "dropWhile ws v = []"
    using assms by (simp add: dropWhile_eq_Nil_conv)
  show ?thesis unfolding trimWith_def d by simp
qed

lemmas run_defs =
  sendMessage_def sendMessage_try_def sendMessage_create_def sendMessage_send_def
  addMessageToUI_def showTypingIndicator_def loadConversationHistory_def
  loadConversationHistory_reply_def addLink_def
  fetch_def pushState_def consoleError_def setDisplay_def freshPage_def activePage_def
  decimalToNumber_def isDigit_def dec.simps

text \<open>
  Claim C2, as stated, fails for text that consists only of white space: \<open>sendMessage\<close>
  tests \<open>!message\<close>, which only the empty string satisfies, so two spaces are rendered
  as a user message, a conversation is created and the text is sent.
\<close>

theorem sendMessage_whitespace_counterexample:
  "list_all asciiWhiteSpace ''  '' \<and>
   requests (finalState (sendMessage decimalToNumber ''  '' (Body JUndefined (JNum 7))
      (HistoryArray []) (Body JUndefined ''Hi'') (HistoryArray []) freshPage))
     = [Request ''POST'' ''/new_conversation'' None, Request ''GET'' ''/conversations'' None,
        Request ''POST'' ''/conversations/7/send'' (Some ''  ''),
        Request ''GET'' ''/conversations'' None] \<and>
   chatBox (finalState (sendMessage decimalToNumber ''  '' (Body JUndefined (JNum 7))
      (HistoryArray []) (Body JUndefined ''Hi'') (HistoryArray []) freshPage))
     = [Suggestions, Message ''user-message'' ''  '', Message ''bot-message'' ''Hi''] \<and>
   currentConversationId (finalState (sendMessage decimalToNumber ''  '' (Body JUndefined (JNum 7))
      (HistoryArray []) (Body JUndefined ''Hi'') (HistoryArray []) freshPage)) = JNum 7"
  by (simp add: run_defs asciiWhiteSpace_def)

text \<open>
  Claim C2, amended. \<open>sendMessage\<close> on the empty text issues no network call and
  changes nothing. Text of white space only is stopped one level up: the submit listener
  of the form trims the input before it calls \<open>sendMessage\<close>. So submitting an input that
  the runtime's \<open>trim\<close> reduces to the empty string issues no network call, renders
  nothing, shows no indicator, hides no suggestion and keeps the conversation id; it only
  clears the input box. That is the case of every input made only of characters that
  \<open>trim\<close> removes, whichever set of white space that is.
\<close>

theorem sendMessage_empty_noop:
  "sendMessage tn [] rn rh1 rs rh2 s = Normal s \<and>
   (trim (messageInput s) = [] \<longrightarrow>
      messageForm_submit tn trim rn rh1 rs rh2 s = s\<lparr>messageInput := []\<rparr>) \<and>
   ((\<forall>c \<in> set (messageInput s). ws c) \<longrightarrow>
      messageForm_submit tn (trimWith ws) rn rh1 rs rh2 s = s\<lparr>messageInput := []\<rparr>)"
  by (simp add: sendMessage_def messageForm_submit_def trimWith_whitespace)

theorem sendMessage_empty_noop_witness:
  "list_all asciiWhiteSpace (messageInput (freshPage\<lparr>messageInput := ''  ''\<rparr>)) \<and>
   trimWith asciiWhiteSpace (messageInput (freshPage\<lparr>messageInput := ''  ''\<rparr>)) = [] \<and>
   messageForm_submit decimalToNumber (trimWith asciiWhiteSpace) (Body JUndefined (JNum 7))
     (HistoryArray []) (Body JUndefined ''Hi'') (HistoryArray [])
     (freshPage\<lparr>messageInput := ''  ''\<rparr>) = freshPage"
proof -
  have h: "\<forall>c \<in> set (messageInput (freshPage\<lparr>messageInput := ''  ''\<rparr>)). asciiWhiteSpace c"
    by (simp add: asciiWhiteSpace_def)
  have e: "trimWith asciiWhiteSpace (messageInput (freshPage\<lparr>messageInput := ''  ''\<rparr>)) = []"
    by (simp add: trimWith_def asciiWhiteSpace_def)
  have "messageForm_submit decimalToNumber (trimWith asciiWhiteSpace) (Body JUndefined (JNum 7))
     (HistoryArray []) (Body JUndefined ''Hi'') (HistoryArray [])
     (freshPage\<lparr>messageInput := ''  ''\<rparr>)
     = freshPage\<lparr>messageInput := ''  ''\<rparr>\<lparr>messageInput := []\<rparr>"
    using h e sendMessage_empty_noop [of decimalToNumber "Body JUndefined (JNum 7)" "HistoryArray []"
        "Body JUndefined ''Hi''" "HistoryArray []" "freshPage\<lparr>messageInput := ''  ''\<rparr>"
        "trimWith asciiWhiteSpace" asciiWhiteSpace]
    by blast
  also have "\<dots> = freshPage" by (simp add: freshPage_def)
  finally show ?thesis using h e by (simp add: list_all_iff)
qed




text \<open>
  Claim C7. A run of \<open>sendMessage\<close> on non-empty text always completes, and ends with
  the typing indicator hidden, whatever its display was before and whichever step failed
  or succeeded. When a step fails (the create call when no id is active,
  or the send call; by a rejected fetch or parse, or by an \<open>error\<close> field) the chat box
  gains the user's bubble and exactly one more bubble, of class \<open>bot-message\<close>, with
  \<open>Error:\<close> and the message of the failure; when no step fails it gains the user's
  bubble and the reply.
\<close>

theorem sendMessage_error_bubble:
  assumes "message \<noteq> []"
  shows "sendMessage tn message rn rh1 rs rh2 s
           = Normal (finalState (sendMessage tn message rn rh1 rs rh2 s)) \<and>
         typingIndicator (finalState (sendMessage tn message rn rh1 rs rh2 s))
           = setDisplay ''none'' (typingIndicator s) \<and>
         hidden (typingIndicator (finalState (sendMessage tn message rn rh1 rs rh2 s))) \<and>
         (\<forall>m. sendFailure s rn rs = Some m \<longrightarrow>
            chatBox (finalState (sendMessage tn message rn rh1 rs rh2 s))
              = chatBox s @ [Message ''user-message'' message, errorBubble m]) \<and>
         (\<forall>e response. sendFailure s rn rs = None \<and> rs = Body e response \<longrightarrow>
            chatBox (finalState (sendMessage tn message rn rh1 rs rh2 s))
              = chatBox s @ [Message ''user-message'' message, Message ''bot-message'' response])"
proof (cases "truthy (currentConversationId s)")
  case True
  show ?thesis
  proof (cases "failed rs")
    case True
    with \<open>truthy (currentConversationId s)\<close> assms show ?thesis
      by (simp add: sendMessage_steps sendFailure_def fetch_def setDisplay_idem
          hidden_setDisplay_none)
  next
    case False
    then obtain e d where "rs = Body e d" "\<not> truthy e"
      using not_failed_Body by blast
    with \<open>truthy (currentConversationId s)\<close> assms show ?thesis
      by (simp add: sendMessage_steps sendFailure_def fetch_def setDisplay_idem
          hidden_setDisplay_none)
  qed
next
  case noId: False
  show ?thesis
  proof (cases "failed rn")
    case True
    with noId assms show ?thesis
      by (simp add: sendMessage_steps sendFailure_def fetch_def setDisplay_idem
          hidden_setDisplay_none)
  next
    case False
    then obtain e' cid where rn: "rn = Body e' cid" "\<not> truthy e'"
      using not_failed_Body by blast
    show ?thesis
    proof (cases "failed rs")
      case True
      with noId rn assms show ?thesis
        by (simp add: sendMessage_steps sendFailure_def fetch_def pushState_def setDisplay_idem
          hidden_setDisplay_none)
    next
      case False
      then obtain e d where "rs = Body e d" "\<not> truthy e"
        using not_failed_Body by blast
      with noId rn assms show ?thesis
        by (simp add: sendMessage_steps sendFailure_def fetch_def pushState_def setDisplay_idem
          hidden_setDisplay_none)
    qed
  qed
qed

theorem sendMessage_error_bubble_witness:
  "''Hello'' \<noteq> [] \<and>
   typingIndicator (freshPage\<lparr>typingIndicator := Some ''flex''\<rparr>) = Some ''flex'' \<and>
   chatBox (finalState (sendMessage decimalToNumber ''Hello'' (Rejected ''Failed to fetch'')
      (HistoryArray []) (Body JUndefined ''Hi'') (HistoryArray [])
      (freshPage\<lparr>typingIndicator := Some ''flex''\<rparr>)))
     = [Suggestions, Message ''user-message'' ''Hello'',
        Message ''bot-message'' ''Error: Failed to fetch''] \<and>
   typingIndicator (finalState (sendMessage decimalToNumber ''Hello'' (Rejected ''Failed to fetch'')
      (HistoryArray []) (Body JUndefined ''Hi'') (HistoryArray [])
      (freshPage\<lparr>typingIndicator := Some ''flex''\<rparr>))) = Some ''none'' \<and>
   hidden (typingIndicator (finalState (sendMessage decimalToNumber ''Hello''
      (Rejected ''Failed to fetch'') (HistoryArray []) (Body JUndefined ''Hi'') (HistoryArray [])
      (freshPage\<lparr>typingIndicator := Some ''flex''\<rparr>)))) \<and>
   chatBox (finalState (sendMessage decimalToNumber ''Hello'' (Rejected ''Failed to fetch'')
      (HistoryArray []) (Body (JStr ''quota exceeded'') []) (HistoryArray []) activePage))
     = chatBox activePage @ [Message ''user-message'' ''Hello'',
        Message ''bot-message'' ''Error: quota exceeded'']"
proof -
  let ?shown = "freshPage\<lparr>typingIndicator := Some ''flex''\<rparr>"
  have h: "''Hello'' \<noteq> []" by simp
  have f1: "sendFailure ?shown (Rejected ''Failed to fetch'') (Body JUndefined ''Hi'')
      = Some ''Failed to fetch''"
    by (simp add: sendFailure_def freshPage_def)
  have f2: "sendFailure activePage (Rejected ''Failed to fetch'') (Body (JStr ''quota exceeded'') [])
      = Some ''quota exceeded''"
    by (simp add: sendFailure_def activePage_def freshPage_def)
  have t: "typingIndicator ?shown = Some ''flex''" "chatBox ?shown = [Suggestions]"
    by (simp_all add: freshPage_def)
  show ?thesis
    using h f1 f2 t
      sendMessage_error_bubble [OF h, of decimalToNumber "Rejected ''Failed to fetch''"
        "HistoryArray []" "Body JUndefined ''Hi''" "HistoryArray []" ?shown]
      sendMessage_error_bubble [OF h, of decimalToNumber "Rejected ''Failed to fetch''"
        "HistoryArray []" "Body (JStr ''quota exceeded'') []" "HistoryArray []" activePage]
    by (simp add: errorBubble_def setDisplay_def hidden_def)
qed

text \<open>
  Claim C10, as stated, fails when the created id is falsy: with the id 0 adopted and the
  send call rejected, the retry finds \<open>!currentConversationId\<close> true and creates a
  conversation again, so it does not target the same conversation.
\<close>

theorem sendMessage_retry_creates_again_counterexample:
  "currentConversationId
     (finalState (sendMessage decimalToNumber ''Hello'' (Body JUndefined (JNum 0)) (HistoryArray [])
        (Rejected ''Failed to fetch'') (HistoryArray []) freshPage)) = JNum 0 \<and>
   issuedBetween
     (finalState (sendMessage decimalToNumber ''Hello'' (Body JUndefined (JNum 0)) (HistoryArray [])
        (Rejected ''Failed to fetch'') (HistoryArray []) freshPage))
     (finalState (sendMessage decimalToNumber ''Hello again'' (Body JUndefined (JNum 8)) (HistoryArray [])
        (Body JUndefined ''Hi'') (HistoryArray [])
        (finalState (sendMessage decimalToNumber ''Hello'' (Body JUndefined (JNum 0)) (HistoryArray [])
           (Rejected ''Failed to fetch'') (HistoryArray []) freshPage))))
     = [Request ''POST'' ''/new_conversation'' None, Request ''GET'' ''/conversations'' None,
        Request ''POST'' ''/conversations/8/send'' (Some ''Hello again''),
        Request ''GET'' ''/conversations'' None]"
  by (simp add: run_defs issuedBetween_def Let_def)

text \<open>
  Claim C10, amended. When a run of \<open>sendMessage\<close> creates a conversation and its send
  call then fails, \<open>currentConversationId\<close> ends as the created id. If that id is truthy,
  a retry from that state issues no create call: its calls are the send call for the same
  id and the sidebar refresh after a successful send, and the id stays. If that id is
  falsy, the retry starts with a create call.
\<close>

theorem sendMessage_retry_keeps_conversation:
  assumes "message \<noteq> []" and "retry \<noteq> []"
    and "\<not> truthy (currentConversationId s)" and "\<not> truthy e" and "failed rs"
  shows "currentConversationId (finalState (sendMessage tn message (Body e cid) rh1 rs rh2 s)) = cid \<and>
         (truthy cid \<longrightarrow>
            issuedBetween (finalState (sendMessage tn message (Body e cid) rh1 rs rh2 s))
              (finalState (sendMessage tn retry rn' rh1' rs' rh2'
                 (finalState (sendMessage tn message (Body e cid) rh1 rs rh2 s))))
              = sendRequest cid retry # (if failed rs' then [] else sidebarRequests s) \<and>
            createRequest \<notin> set (issuedBetween
              (finalState (sendMessage tn message (Body e cid) rh1 rs rh2 s))
              (finalState (sendMessage tn retry rn' rh1' rs' rh2'
                 (finalState (sendMessage tn message (Body e cid) rh1 rs rh2 s))))) \<and>
            currentConversationId
              (finalState (sendMessage tn retry rn' rh1' rs' rh2'
                 (finalState (sendMessage tn message (Body e cid) rh1 rs rh2 s)))) = cid) \<and>
         (\<not> truthy cid \<longrightarrow>
            take 1 (issuedBetween (finalState (sendMessage tn message (Body e cid) rh1 rs rh2 s))
              (finalState (sendMessage tn retry rn' rh1' rs' rh2'
                 (finalState (sendMessage tn message (Body e cid) rh1 rs rh2 s)))))
              = [createRequest])"
proof -
  let ?s1 = "finalState (sendMessage tn message (Body e cid) rh1 rs rh2 s)"
  have id1: "currentConversationId ?s1 = cid"
    and side1: "sidebarRequests ?s1 = sidebarRequests s"
    using assms by (simp_all add: sendMessage_trace_create_ok)
  show ?thesis
  proof (cases "truthy cid")
    case True
    then have active: "truthy (currentConversationId ?s1)"
      by (simp add: id1)
    note retry = sendMessage_trace_active [OF \<open>retry \<noteq> []\<close> active, of tn rn' rh1' rs' rh2']
    from True show ?thesis
      by (simp add: id1 issuedBetween_def retry side1 createRequest_distinct)
  next
    case False
    then have noId: "\<not> truthy (currentConversationId ?s1)"
      by (simp add: id1)
    have "take 1 (issuedBetween ?s1 (finalState (sendMessage tn retry rn' rh1' rs' rh2' ?s1)))
        = [createRequest]"
    proof (cases "failed rn'")
      case True
      show ?thesis
        by (simp add: issuedBetween_def
            sendMessage_trace_create_failed [OF \<open>retry \<noteq> []\<close> noId True])
    next
      case ok: False
      then obtain e' cid' where rn': "rn' = Body e' cid'" "\<not> truthy e'"
        using not_failed_Body by blast
      show ?thesis
        unfolding rn'(1)
        by (simp add: issuedBetween_def
            sendMessage_trace_create_ok [OF \<open>retry \<noteq> []\<close> noId rn'(2)])
    qed
    with False show ?thesis by (simp add: id1)
  qed
qed

theorem sendMessage_retry_keeps_conversation_witness:
  "''Hello'' \<noteq> [] \<and> ''Hello again'' \<noteq> [] \<and> \<not> truthy (currentConversationId freshPage) \<and>
   \<not> truthy JUndefined \<and> failed (Rejected ''Failed to fetch'' :: string fetched) \<and> truthy (JNum 7) \<and>
   currentConversationId
     (finalState (sendMessage decimalToNumber ''Hello'' (Body JUndefined (JNum 7)) (HistoryArray [])
        (Rejected ''Failed to fetch'') (HistoryArray []) freshPage)) = JNum 7 \<and>
   issuedBetween
     (finalState (sendMessage decimalToNumber ''Hello'' (Body JUndefined (JNum 7)) (HistoryArray [])
        (Rejected ''Failed to fetch'') (HistoryArray []) freshPage))
     (finalState (sendMessage decimalToNumber ''Hello again'' (Body JUndefined (JNum 8)) (HistoryArray [])
        (Body JUndefined ''Hi'') (HistoryArray [])
        (finalState (sendMessage decimalToNumber ''Hello'' (Body JUndefined (JNum 7)) (HistoryArray [])
           (Rejected ''Failed to fetch'') (HistoryArray []) freshPage))))
     = [Request ''POST'' ''/conversations/7/send'' (Some ''Hello again''),
        Request ''GET'' ''/conversations'' None]"
proof -
  have h: "''Hello'' \<noteq> []" "''Hello again'' \<noteq> []"
    "\<not> truthy (currentConversationId freshPage)" "\<not> truthy JUndefined"
    "failed (Rejected ''Failed to fetch'' :: string fetched)" "truthy (JNum 7)"
    by (simp_all add: freshPage_def)
  have sb: "sidebarRequests freshPage = [Request ''GET'' ''/conversations'' None]"
    by (simp add: sidebarRequests_def freshPage_def)
  show ?thesis
    using h sb
      sendMessage_retry_keeps_conversation [OF h(1) h(2) h(3) h(4) h(5), of decimalToNumber
        "JNum 7" "HistoryArray []" "HistoryArray []" "Body JUndefined (JNum 8)" "HistoryArray []"
        "Body JUndefined ''Hi''" "HistoryArray []"]
    by (simp add: sendRequest_def dec.simps)
qed

section \<open>Loading a conversation that exists\<close>

lemma addMessageToUI_known_sender:
  "msg_sender m = ''user'' \<or> msg_sender m = ''model'' \<Longrightarrow>
     addMessageToUI (msg_content m) (msg_sender m) s = Normal (s\<lparr>chatBox := chatBox s @ [bubble m]\<rparr>)"
  by (auto simp add: addMessageToUI_def bubble_def)

lemma addMessages_known_senders:
  "\<forall>m \<in> set ms. msg_sender m = ''user'' \<or> msg_sender m = ''model'' \<Longrightarrow>
     addMessages ms s = Normal (s\<lparr>chatBox := chatBox s @ map bubble ms\<rparr>)"
proof (induction ms arbitrary: s)
  case Nil
  show ?case by simp
next
  case (Cons m ms)
  then show ?case by (simp add: addMessageToUI_known_sender)
qed

lemma bubble_not_Suggestions: "bubble m \<noteq> Suggestions"
  by (simp add: bubble_def)

lemma filter_bubbles: "filter (\<lambda>n. n \<noteq> Suggestions) (map bubble ms) = map bubble ms"
  by (induction ms) (simp_all add: bubble_not_Suggestions)

lemma loadConversation_success_eq:
  assumes "truthy convId" and "\<not> truthy e"
    and "\<forall>m \<in> set (data_messages d). msg_sender m = ''user'' \<or> msg_sender m = ''model''"
  shows "loadConversation tn convId (Body e d) s =
     s\<lparr>requests := requests s @ [Request ''GET'' (''/conversations/'' @ toString convId) None],
       chatBox := map bubble (data_messages d),
       suggestionsContainer := setDisplay ''none'' (suggestionsContainer s),
       chatTitle := data_title d,
       currentConversationId := convId,
       shareChatBtn := setDisplay ''flex'' (shareChatBtn s),
       exportMenuBtn := setDisplay ''flex'' (exportMenuBtn s),
       historyEntries := historyEntries s @ [pathname s],
       pathname := ''/conversation/'' @ toString convId,
       conversationHistory := map_option (map (toggleActive tn convId)) (conversationHistory s)\<rparr>"
  using assms
  by (simp add: loadConversation_def loadConversation_reply_def addMessages_known_senders fetch_def pushState_def Let_def)

lemma filter_active_toggle:
  "filter active (map (toggleActive tn convId) ls)
     = map (toggleActive tn convId) (filter (\<lambda>l. looseEq tn (JStr (dataId l)) convId) ls)"
  by (induction ls) (simp_all add: toggleActive_def)

lemmas load_defs =
  loadConversation_def loadConversation_reply_def loadConversation_catch_def resetChatArea_def addMessageToUI_def
  toggleActive_def fetch_def pushState_def consoleError_def setDisplay_def
  freshPage_def activePage_def decimalToNumber_def isDigit_def

text \<open>
  Claim C4, as stated, fails: a successful load marks no sidebar entry active when the
  sidebar has no entry with the loaded id, as on the fresh page, whose sidebar is still
  empty.
\<close>

theorem loadConversation_no_active_counterexample:
  "activeLinks (loadConversation decimalToNumber (JStr ''42'')
      (Body JUndefined \<lparr>data_title = ''Plans'',
         data_messages = [\<lparr>msg_content = ''Hi'', msg_sender = ''user''\<rparr>]\<rparr>) freshPage) = [] \<and>
   links (loadConversation decimalToNumber (JStr ''42'')
      (Body JUndefined \<lparr>data_title = ''Plans'',
         data_messages = [\<lparr>msg_content = ''Hi'', msg_sender = ''user''\<rparr>]\<rparr>) freshPage) = []"
  by (simp add: load_defs activeLinks_def links_def)

text \<open>
  Claim C4, amended. When \<open>loadConversation\<close> on a truthy id receives a reply without
  an \<open>error\<close> field whose messages all have the sender \<open>user\<close> or \<open>model\<close>, the
  rendered messages are the bubbles of the server's messages, as many and in the same
  order; a sidebar link is marked active exactly when its \<open>data-id\<close> loosely equals the
  id, so that the number of active links is the number of links with that id; the URL is
  \<open>/conversation/\<close> followed by the id, the id is the active one and the title is the
  server's.
\<close>

theorem loadConversation_success:
  assumes "truthy convId" and "\<not> truthy e"
    and "\<forall>m \<in> set (data_messages d). msg_sender m = ''user'' \<or> msg_sender m = ''model''"
  shows "renderedMessages (loadConversation tn convId (Body e d) s) = map bubble (data_messages d) \<and>
         length (renderedMessages (loadConversation tn convId (Body e d) s))
           = length (data_messages d) \<and>
         links (loadConversation tn convId (Body e d) s)
           = map (\<lambda>l. l\<lparr>active := looseEq tn (JStr (dataId l)) convId\<rparr>) (links s) \<and>
         length (activeLinks (loadConversation tn convId (Body e d) s))
           = length (filter (\<lambda>l. looseEq tn (JStr (dataId l)) convId) (links s)) \<and>
         pathname (loadConversation tn convId (Body e d) s) = ''/conversation/'' @ toString convId \<and>
         currentConversationId (loadConversation tn convId (Body e d) s) = convId \<and>
         chatTitle (loadConversation tn convId (Body e d) s) = data_title d"
proof -
  note eq = loadConversation_success_eq [OF assms, of tn s]
  have l: "links (loadConversation tn convId (Body e d) s) = map (toggleActive tn convId) (links s)"
    by (cases "conversationHistory s") (simp_all add: eq links_def)
  have t: "toggleActive tn convId = (\<lambda>l. l\<lparr>active := looseEq tn (JStr (dataId l)) convId\<rparr>)"
    by (rule ext) (simp add: toggleActive_def)
  have a: "length (activeLinks (loadConversation tn convId (Body e d) s))
           = length (filter (\<lambda>l. looseEq tn (JStr (dataId l)) convId) (links s))"
    by (simp add: activeLinks_def l filter_active_toggle)
  have r: "renderedMessages (loadConversation tn convId (Body e d) s) = map bubble (data_messages d)"
    by (simp add: eq renderedMessages_def filter_bubbles)
  have rest: "pathname (loadConversation tn convId (Body e d) s) = ''/conversation/'' @ toString convId"
    "currentConversationId (loadConversation tn convId (Body e d) s) = convId"
    "chatTitle (loadConversation tn convId (Body e d) s) = data_title d"
    by (simp_all add: eq)
  from l a r rest show ?thesis
    by (simp add: t)
qed

theorem loadConversation_success_witness:
  "truthy (JStr ''42'') \<and> \<not> truthy JUndefined \<and>
   renderedMessages (loadConversation decimalToNumber (JStr ''42'')
      (Body JUndefined \<lparr>data_title = ''Plans'',
         data_messages = [\<lparr>msg_content = ''Hi'', msg_sender = ''user''\<rparr>,
                          \<lparr>msg_content = ''Hello!'', msg_sender = ''model''\<rparr>]\<rparr>) activePage)
     = [Message ''user-message'' ''Hi'', Message ''bot-message'' ''Hello!''] \<and>
   links (loadConversation decimalToNumber (JStr ''42'')
      (Body JUndefined \<lparr>data_title = ''Plans'',
         data_messages = [\<lparr>msg_content = ''Hi'', msg_sender = ''user''\<rparr>,
                          \<lparr>msg_content = ''Hello!'', msg_sender = ''model''\<rparr>]\<rparr>) activePage)
     = [\<lparr>href = ''/conversation/5'', textContent = ''Greetings'', dataId = ''5'', active = False\<rparr>,
        \<lparr>href = ''/conversation/42'', textContent = ''Plans'', dataId = ''42'', active = True\<rparr>] \<and>
   pathname (loadConversation decimalToNumber (JStr ''42'')
      (Body JUndefined \<lparr>data_title = ''Plans'',
         data_messages = [\<lparr>msg_content = ''Hi'', msg_sender = ''user''\<rparr>,
                          \<lparr>msg_content = ''Hello!'', msg_sender = ''model''\<rparr>]\<rparr>) activePage)
     = ''/conversation/42''"
proof -
  have h: "truthy (JStr ''42'')" "\<not> truthy JUndefined"
    "\<forall>m \<in> set (data_messages \<lparr>data_title = ''Plans'',
         data_messages = [\<lparr>msg_content = ''Hi'', msg_sender = ''user''\<rparr>,
                          \<lparr>msg_content = ''Hello!'', msg_sender = ''model''\<rparr>]\<rparr>).
       msg_sender m = ''user'' \<or> msg_sender m = ''model''"
    by simp_all
  have ls: "links activePage
     = [\<lparr>href = ''/conversation/5'', textContent = ''Greetings'', dataId = ''5'', active = True\<rparr>,
        \<lparr>href = ''/conversation/42'', textContent = ''Plans'', dataId = ''42'', active = False\<rparr>]"
    by (simp add: links_def activePage_def freshPage_def)
  show ?thesis
    using h(1,2) ls loadConversation_success [OF h, of decimalToNumber activePage]
    by (simp add: bubble_def)
qed

section \<open>Initial load\<close>

lemma matchConversation_Cons:
  "matchConversation (c # cs) =
     (if matchAt (c # cs) then Some (takeWhile isDigit (drop 14 (c # cs))) else matchConversation cs)"
  by (simp add: matchAt_def)

lemma matchAt_Nil: "\<not> matchAt []"
  by (simp add: matchAt_def)

lemma matchConversation_None:
  "(matchConversation p = None) = (\<forall>i<length p. \<not> matchAt (drop i p))"
proof (induction p)
  case Nil
  show ?case by simp
next
  case (Cons c cs)
  have "(\<forall>i<length (c # cs). \<not> matchAt (drop i (c # cs)))
      = (\<not> matchAt (c # cs) \<and> (\<forall>i<length cs. \<not> matchAt (drop i cs)))"
    by (auto simp add: less_Suc_eq_0_disj)
  with Cons show ?case
    by (simp only: matchConversation_Cons split: if_splits) simp
qed

lemma matchConversation_Some:
  "matchConversation p = Some ds \<Longrightarrow>
     \<exists>i<length p. matchAt (drop i p) \<and> (\<forall>j<i. \<not> matchAt (drop j p)) \<and>
       ds = takeWhile isDigit (drop (i + 14) p)"
proof (induction p)
  case Nil
  then show ?case by simp
next
  case (Cons c cs)
  show ?case
  proof (cases "matchAt (c # cs)")
    case True
    with Cons.prems have "ds = takeWhile isDigit (drop 14 (c # cs))"
      by (simp only: matchConversation_Cons if_True option.inject)
    with True show ?thesis
      by (intro exI [of _ 0]) simp
  next
    case False
    with Cons.prems have "matchConversation cs = Some ds"
      by (simp only: matchConversation_Cons if_False)
    from Cons.IH [OF this] obtain i where i: "i < length cs" "matchAt (drop i cs)"
      "\<forall>j<i. \<not> matchAt (drop j cs)" "ds = takeWhile isDigit (drop (i + 14) cs)"
      by blast
    have 1: "Suc i < length (c # cs)"
      using i(1) by simp
    have 2: "matchAt (drop (Suc i) (c # cs))"
      using i(2) by simp
    have 3: "\<forall>j<Suc i. \<not> matchAt (drop j (c # cs))"
      using False i(3) by (auto simp add: less_Suc_eq_0_disj)
    have 4: "ds = takeWhile isDigit (drop (Suc i + 14) (c # cs))"
      using i(4) by (simp only: add_Suc drop_Suc_Cons)
    from 1 2 3 4 show ?thesis by blast
  qed
qed

lemma matchConversation_leftmost:
  "i < length p \<Longrightarrow> matchAt (drop i p) \<Longrightarrow> \<forall>j<i. \<not> matchAt (drop j p) \<Longrightarrow>
     matchConversation p = Some (takeWhile isDigit (drop (i + 14) p))"
proof (induction p arbitrary: i)
  case Nil
  then show ?case by simp
next
  case (Cons c cs)
  show ?case
  proof (cases i)
    case 0
    with Cons.prems(2) have "matchAt (c # cs)" by simp
    then have "matchConversation (c # cs) = Some (takeWhile isDigit (drop 14 (c # cs)))"
      by (simp only: matchConversation_Cons if_True)
    with 0 show ?thesis by simp
  next
    case (Suc k)
    from Cons.prems(3) Suc have "\<not> matchAt (drop 0 (c # cs))" by blast
    then have no: "\<not> matchAt (c # cs)" by simp
    have k: "k < length cs" "matchAt (drop k cs)"
      using Cons.prems(1,2) Suc by simp_all
    have "\<forall>j<k. \<not> matchAt (drop j cs)"
    proof (intro allI impI)
      fix j assume "j < k"
      then have "Suc j < i" using Suc by simp
      with Cons.prems(3) have "\<not> matchAt (drop (Suc j) (c # cs))" by blast
      then show "\<not> matchAt (drop j cs)" by simp
    qed
    from Cons.IH [OF k this] have "matchConversation cs = Some (takeWhile isDigit (drop (k + 14) cs))" .
    moreover have "matchConversation (c # cs) = matchConversation cs"
      using no by (simp only: matchConversation_Cons if_False)
    moreover have "drop (i + 14) (c # cs) = drop (k + 14) cs"
      unfolding Suc by (simp only: add_Suc drop_Suc_Cons)
    ultimately show ?thesis by simp
  qed
qed

lemma matchConversation_nonempty:
  assumes "matchConversation p = Some ds"
  shows "ds \<noteq> []"
proof -
  from matchConversation_Some [OF assms] obtain i where
    m: "matchAt (drop i p)" and ds: "ds = takeWhile isDigit (drop (i + 14) p)"
    by blast
  from m have "takeWhile isDigit (drop 14 (drop i p)) \<noteq> []"
    by (simp add: matchAt_def)
  moreover have "drop 14 (drop i p) = drop (i + 14) p"
    by (simp add: add.commute)
  ultimately show ?thesis using ds by simp
qed

lemma matchConversation_prefix:
  assumes "ds \<noteq> []" and "\<forall>c \<in> set ds. isDigit c" and "rest = [] \<or> \<not> isDigit (hd rest)"
  shows "matchConversation (''/conversation/'' @ ds @ rest) = Some ds"
proof -
  let ?p = "CHR ''/'' # (''conversation/'' @ ds @ rest)"
  have r: "takeWhile isDigit rest = []"
    using assms(3) by (cases rest) simp_all
  have tw: "takeWhile isDigit (ds @ rest) = ds"
    using assms(2) r by (simp add: takeWhile_append2)
  have d: "drop 14 ?p = ds @ rest" and tk: "take 14 ?p = ''/conversation/''"
    by simp_all
  have m: "matchAt ?p"
    unfolding matchAt_def d tk tw using assms(1) by simp
  have "matchConversation ?p = Some (takeWhile isDigit (drop 14 ?p))"
    using m by (simp only: matchConversation_Cons if_True)
  then have "matchConversation ?p = Some ds"
    by (simp only: d tw)
  moreover have "''/conversation/'' @ ds @ rest = ?p"
    by simp
  ultimately show ?thesis by (simp only:)
qed

lemma addMessages_requests: "requests (finalState (addMessages ms s)) = requests s"
proof (induction ms arbitrary: s)
  case Nil
  show ?case by simp
next
  case (Cons m ms)
  show ?case
  proof (cases "addMessageToUI (msg_content m) (msg_sender m) s")
    case (Normal s1)
    then have "requests s1 = requests s"
      by (auto simp add: addMessageToUI_def Let_def split: if_splits)
    with Normal Cons.IH [of s1] show ?thesis by simp
  next
    case (Throw err s1)
    then have "requests s1 = requests s"
      by (auto simp add: addMessageToUI_def Let_def split: if_splits)
    with Throw show ?thesis by simp
  qed
qed

lemma loadConversation_reply_requests:
  "requests (loadConversation_reply tn convId r s) = requests s"
proof (cases r)
  case (Rejected m)
  then show ?thesis
    by (simp add: loadConversation_reply_def loadConversation_catch_def resetChatArea_def
        consoleError_def)
next
  case (Body e d)
  show ?thesis
  proof (cases "truthy e")
    case True
    with Body show ?thesis
      by (simp add: loadConversation_reply_def loadConversation_catch_def resetChatArea_def
          consoleError_def)
  next
    case False
    let ?s1 = "s\<lparr>chatBox := [],
                 suggestionsContainer := setDisplay ''none'' (suggestionsContainer s)\<rparr>"
    have a: "requests (finalState (addMessages (data_messages d) ?s1)) = requests s"
      by (simp add: addMessages_requests)
    show ?thesis
    proof (cases "addMessages (data_messages d) ?s1")
      case (Normal s2)
      with a Body False show ?thesis
        by (simp add: loadConversation_reply_def pushState_def Let_def)
    next
      case (Throw err s2)
      with a Body False show ?thesis
        by (simp add: loadConversation_reply_def loadConversation_catch_def resetChatArea_def
            consoleError_def)
    qed
  qed
qed

lemma loadConversation_reply_success:
  assumes "\<not> truthy e"
    and "\<forall>m \<in> set (data_messages d). msg_sender m = ''user'' \<or> msg_sender m = ''model''"
  shows "currentConversationId (loadConversation_reply tn convId (Body e d) s) = convId"
    and "pathname (loadConversation_reply tn convId (Body e d) s) = ''/conversation/'' @ toString convId"
    and "chatBox (loadConversation_reply tn convId (Body e d) s) = map bubble (data_messages d)"
  using assms
  by (simp_all add: loadConversation_reply_def addMessages_known_senders pushState_def Let_def)

lemma loadConversationHistory_reply_frame:
  "currentConversationId (loadConversationHistory_reply tn r s) = currentConversationId s"
  "pathname (loadConversationHistory_reply tn r s) = pathname s"
  "chatBox (loadConversationHistory_reply tn r s) = chatBox s"
  "requests (loadConversationHistory_reply tn r s) = requests s"
  by (simp_all add: loadConversationHistory_reply_def consoleError_def foldl_addLink
      split: history_reply.splits)

lemma init_matched_requests:
  assumes "ds \<noteq> []" and "init_convId (pathname s) = JStr ds"
  shows "requests (init tn True historyFirst rc rh s)
           = requests s @ Request ''GET'' (''/conversations/'' @ ds) None # sidebarRequests s"
  using assms
  by (simp add: init_def Let_def fetch_def sidebarRequests_def loadConversation_reply_requests
      loadConversationHistory_reply_frame)

lemma init_matched_success:
  assumes "ds \<noteq> []" and "init_convId (pathname s) = JStr ds" and "\<not> truthy e"
    and "\<forall>m \<in> set (data_messages d). msg_sender m = ''user'' \<or> msg_sender m = ''model''"
  shows "currentConversationId (init tn True historyFirst (Body e d) rh s) = JStr ds"
    and "pathname (init tn True historyFirst (Body e d) rh s) = ''/conversation/'' @ ds"
    and "renderedMessages (init tn True historyFirst (Body e d) rh s) = map bubble (data_messages d)"
  using assms
  by (simp_all add: init_def Let_def loadConversation_reply_success [OF assms(3,4)]
      loadConversationHistory_reply_frame renderedMessages_def filter_bubbles)

text \<open>
  Claim C9, as stated, fails: the pattern is not anchored, so the path
  \<open>/conversation/12abc\<close>, whose id is not purely numeric, loads conversation 12, and a
  path that only contains \<open>/conversation/7\<close> loads conversation 7.
\<close>

theorem init_convId_prefix_counterexample:
  "init_convId ''/conversation/12abc'' = JStr ''12'' \<and>
   requests (init decimalToNumber True False (Rejected ''Failed to fetch'')
      (HistoryRejected ''Failed to fetch'') (freshPage\<lparr>pathname := ''/conversation/12abc''\<rparr>))
     = [Request ''GET'' ''/conversations/12'' None, Request ''GET'' ''/conversations'' None] \<and>
   init_convId ''/shared/conversation/7'' = JStr ''7''"
  by (simp add: init_convId_def init_def loadConversationHistory_def
      loadConversationHistory_reply_def load_defs)

text \<open>
  Claim C9, amended. On initial load the conversation id taken from the URL is the
  longest run of digits after the leftmost place of the path where \<open>/conversation/\<close> is
  followed by a digit: a path \<open>/conversation/\<close> followed by digits gives those digits,
  also when something that is not a digit follows them. \<open>init\<close> then issues the load of
  that conversation and the sidebar refresh, and whichever reply arrives first, a
  successful load ends with that id active, the URL \<open>/conversation/\<close> and the id, and the
  server's messages rendered. A path with no such place gives \<open>null\<close>, and \<open>init\<close> then
  runs \<open>loadConversation(null)\<close>, the empty new-chat view, before the sidebar refresh.
\<close>

theorem init_convId_leftmost_digits:
  "(init_convId path = JNull) = (\<forall>i<length path. \<not> matchAt (drop i path)) \<and>
   (\<forall>i<length path. matchAt (drop i path) \<and> (\<forall>j<i. \<not> matchAt (drop j path)) \<longrightarrow>
      init_convId path = JStr (takeWhile isDigit (drop (i + 14) path)) \<and>
      takeWhile isDigit (drop (i + 14) path) \<noteq> []) \<and>
   (\<forall>ds rest. ds \<noteq> [] \<and> (\<forall>c \<in> set ds. isDigit c) \<and> (rest = [] \<or> \<not> isDigit (hd rest)) \<longrightarrow>
      init_convId (''/conversation/'' @ ds @ rest) = JStr ds) \<and>
   (init_convId (pathname s) = JNull \<longrightarrow>
      init tn True historyFirst rc rh s
        = loadConversationHistory tn rh (loadConversation tn JNull rc s)) \<and>
   (\<forall>ds. init_convId (pathname s) = JStr ds \<longrightarrow>
      issuedBetween s (init tn True historyFirst rc rh s)
        = Request ''GET'' (''/conversations/'' @ ds) None # sidebarRequests s) \<and>
   (\<forall>ds e d. init_convId (pathname s) = JStr ds \<and> rc = Body e d \<and> \<not> truthy e \<and>
        (\<forall>m \<in> set (data_messages d). msg_sender m = ''user'' \<or> msg_sender m = ''model'') \<longrightarrow>
      currentConversationId (init tn True historyFirst rc rh s) = JStr ds \<and>
      pathname (init tn True historyFirst rc rh s) = ''/conversation/'' @ ds \<and>
      renderedMessages (init tn True historyFirst rc rh s) = map bubble (data_messages d))"
proof -
  have a: "(init_convId path = JNull) = (\<forall>i<length path. \<not> matchAt (drop i path))"
    using matchConversation_None [of path]
    by (auto simp add: init_convId_def split: option.splits)
  have b: "\<forall>i<length path. matchAt (drop i path) \<and> (\<forall>j<i. \<not> matchAt (drop j path)) \<longrightarrow>
      init_convId path = JStr (takeWhile isDigit (drop (i + 14) path)) \<and>
      takeWhile isDigit (drop (i + 14) path) \<noteq> []"
  proof (intro allI impI)
    fix i assume i: "i < length path"
      and m: "matchAt (drop i path) \<and> (\<forall>j<i. \<not> matchAt (drop j path))"
    from m have m1: "matchAt (drop i path)" and m2: "\<forall>j<i. \<not> matchAt (drop j path)"
      by blast+
    note found = matchConversation_leftmost [OF i m1 m2]
    from found have "init_convId path = JStr (takeWhile isDigit (drop (i + 14) path))"
      by (simp add: init_convId_def)
    moreover from found have "takeWhile isDigit (drop (i + 14) path) \<noteq> []"
      by (rule matchConversation_nonempty)
    ultimately show "init_convId path = JStr (takeWhile isDigit (drop (i + 14) path)) \<and>
      takeWhile isDigit (drop (i + 14) path) \<noteq> []" by blast
  qed
  have c: "\<forall>ds rest. ds \<noteq> [] \<and> (\<forall>c \<in> set ds. isDigit c) \<and> (rest = [] \<or> \<not> isDigit (hd rest)) \<longrightarrow>
      init_convId (''/conversation/'' @ ds @ rest) = JStr ds"
  proof (intro allI impI)
    fix ds rest
    assume h: "ds \<noteq> [] \<and> (\<forall>c \<in> set ds. isDigit c) \<and> (rest = [] \<or> \<not> isDigit (hd rest))"
    then have mc: "matchConversation (''/conversation/'' @ ds @ rest) = Some ds"
      by (intro matchConversation_prefix) blast+
    show "init_convId (''/conversation/'' @ ds @ rest) = JStr ds"
      unfolding init_convId_def mc by simp
  qed
  have d: "init_convId (pathname s) = JNull \<longrightarrow>
      init tn True historyFirst rc rh s
        = loadConversationHistory tn rh (loadConversation tn JNull rc s)"
    by (simp add: init_def)
  have nonempty: "ds \<noteq> []" if "init_convId (pathname s) = JStr ds" for ds
  proof -
    from that have "matchConversation (pathname s) = Some ds"
      by (simp add: init_convId_def split: option.splits)
    then show ?thesis by (rule matchConversation_nonempty)
  qed
  have e: "\<forall>ds. init_convId (pathname s) = JStr ds \<longrightarrow>
      issuedBetween s (init tn True historyFirst rc rh s)
        = Request ''GET'' (''/conversations/'' @ ds) None # sidebarRequests s"
  proof (intro allI impI)
    fix ds assume m: "init_convId (pathname s) = JStr ds"
    show "issuedBetween s (init tn True historyFirst rc rh s)
        = Request ''GET'' (''/conversations/'' @ ds) None # sidebarRequests s"
      unfolding issuedBetween_def init_matched_requests [OF nonempty [OF m] m]
      by simp
  qed
  have f: "\<forall>ds e d. init_convId (pathname s) = JStr ds \<and> rc = Body e d \<and> \<not> truthy e \<and>
        (\<forall>m \<in> set (data_messages d). msg_sender m = ''user'' \<or> msg_sender m = ''model'') \<longrightarrow>
      currentConversationId (init tn True historyFirst rc rh s) = JStr ds \<and>
      pathname (init tn True historyFirst rc rh s) = ''/conversation/'' @ ds \<and>
      renderedMessages (init tn True historyFirst rc rh s) = map bubble (data_messages d)"
    using nonempty by (auto simp add: init_matched_success)
  from a b c d e f show ?thesis by blast
qed

theorem init_convId_leftmost_digits_witness:
  "init_convId ''/conversation/42'' = JStr ''42'' \<and>
   init_convId ''/conversation/12abc'' = JStr ''12'' \<and>
   init_convId ''/conversation/abc'' = JNull \<and>
   issuedBetween (freshPage\<lparr>pathname := ''/conversation/12abc''\<rparr>)
     (init decimalToNumber True True
        (Body JUndefined \<lparr>data_title = ''Plans'',
           data_messages = [\<lparr>msg_content = ''Hi'', msg_sender = ''user''\<rparr>]\<rparr>)
        (HistoryArray []) (freshPage\<lparr>pathname := ''/conversation/12abc''\<rparr>))
     = [Request ''GET'' ''/conversations/12'' None, Request ''GET'' ''/conversations'' None] \<and>
   currentConversationId
     (init decimalToNumber True True
        (Body JUndefined \<lparr>data_title = ''Plans'',
           data_messages = [\<lparr>msg_content = ''Hi'', msg_sender = ''user''\<rparr>]\<rparr>)
        (HistoryArray []) (freshPage\<lparr>pathname := ''/conversation/12abc''\<rparr>)) = JStr ''12'' \<and>
   init decimalToNumber True True (Rejected []) (HistoryRejected [])
      (freshPage\<lparr>pathname := ''/conversation/abc''\<rparr>)
     = loadConversationHistory decimalToNumber (HistoryRejected [])
         (loadConversation decimalToNumber JNull (Rejected [])
            (freshPage\<lparr>pathname := ''/conversation/abc''\<rparr>))"
proof -
  let ?rc = "Body JUndefined \<lparr>data_title = ''Plans'',
           data_messages = [\<lparr>msg_content = ''Hi'', msg_sender = ''user''\<rparr>]\<rparr>"
  let ?p12 = "freshPage\<lparr>pathname := ''/conversation/12abc''\<rparr>"
  let ?pabc = "freshPage\<lparr>pathname := ''/conversation/abc''\<rparr>"
  have n: "\<forall>i<length ''/conversation/abc''. \<not> matchAt (drop i ''/conversation/abc'')"
    by (simp add: matchAt_def isDigit_def All_less_Suc drop_Cons')
  note t12 = init_convId_leftmost_digits [of "''/conversation/abc''" ?p12 decimalToNumber True
      ?rc "HistoryArray []"]
  note tabc = init_convId_leftmost_digits [of "''/conversation/abc''" ?pabc decimalToNumber True
      "Rejected []" "HistoryRejected []"]
  note null_iff = tabc [THEN conjunct1]
  note prefix = tabc [THEN conjunct2, THEN conjunct2, THEN conjunct1, rule_format]
  note null_init = tabc [THEN conjunct2, THEN conjunct2, THEN conjunct2, THEN conjunct1]
  note matched_requests = t12 [THEN conjunct2, THEN conjunct2, THEN conjunct2, THEN conjunct2,
      THEN conjunct1, rule_format]
  note matched_success = t12 [THEN conjunct2, THEN conjunct2, THEN conjunct2, THEN conjunct2,
      THEN conjunct2, rule_format]
  have j: "init_convId ''/conversation/abc'' = JNull"
    using null_iff n by blast
  have k42: "init_convId (''/conversation/'' @ ''42'' @ []) = JStr ''42''"
    by (rule prefix) (simp add: isDigit_def)
  have k12: "init_convId (''/conversation/'' @ ''12'' @ ''abc'') = JStr ''12''"
    by (rule prefix) (simp add: isDigit_def)
  have p12: "init_convId (pathname ?p12) = JStr ''12''"
    using k12 by simp
  have r12: "issuedBetween ?p12 (init decimalToNumber True True ?rc (HistoryArray []) ?p12)
      = Request ''GET'' (''/conversations/'' @ ''12'') None # sidebarRequests ?p12"
    by (rule matched_requests) (rule p12)
  have s12: "sidebarRequests ?p12 = [Request ''GET'' ''/conversations'' None]"
    by (simp add: sidebarRequests_def freshPage_def)
  have c12: "currentConversationId (init decimalToNumber True True ?rc (HistoryArray []) ?p12)
      = JStr ''12''"
    using matched_success [of "''12''" JUndefined "\<lparr>data_title = ''Plans'',
           data_messages = [\<lparr>msg_content = ''Hi'', msg_sender = ''user''\<rparr>]\<rparr>"] p12
    by simp
  have l: "init decimalToNumber True True (Rejected []) (HistoryRejected []) ?pabc
     = loadConversationHistory decimalToNumber (HistoryRejected [])
         (loadConversation decimalToNumber JNull (Rejected []) ?pabc)"
    using null_init j by simp
  from j k42 k12 r12 s12 c12 l show ?thesis by simp
qed

end
